theory Spec2Isabelle
  imports Main "HOL-Library.Word" "HOL-Library.Sublist" "HOL-Library.List_Lexorder" "HOL-Library.Char_ord"
begin

section \<open>The history stores of Cadence: data model\<close>

text \<open>
  This theory embeds the two history stores of the repository,
  \<^verbatim>\<open>common/persistence/sql/sql_history_store.go\<close> and the NoSQL store
  (\<^verbatim>\<open>nosqlHistoryStore\<close>), and the helpers \<^verbatim>\<open>GetBeginNodeID\<close> and
  \<^verbatim>\<open>GetBranchesMaxReferredNodeIDs\<close> of
  \<^verbatim>\<open>common/persistence/persistence-utils/history_manager_util.go\<close>. The definitions of the
  SQL store carry the names of the source; those of the NoSQL store the prefix \<open>nosql_\<close>.

  Go's \<^verbatim>\<open>int64\<close> (node ids, transaction ids) and \<^verbatim>\<open>int\<close> (page sizes, shard ids,
  row counts) are modelled as \<^typ>\<open>int\<close>: the stores only compare them, except for the one
  addition \<^verbatim>\<open>lastNodeID + 1\<close> of the SQL store's \<^verbatim>\<open>ReadHistoryBranch\<close>, whose two's
  complement wrap-around is written out with \<open>wrap64\<close>. A \<^verbatim>\<open>[]byte\<close> is a list of 8-bit
  words, with \<^verbatim>\<open>nil\<close> and the empty slice both \<open>[]\<close> where the code only looks at the
  length. The transaction id of a node row is a pointer in Go; the rows of a backend always
  carry one.
\<close>

type_synonym int64 = int
type_synonym bytes = "8 word list"
type_synonym UUID = string

definition wrap64 :: "int \<Rightarrow> int64" where
  "wrap64 x = (x + 2 ^ 63) mod 2 ^ 64 - 2 ^ 63"

text \<open>Go \<^verbatim>\<open>error\<close> values. A message built by \<^verbatim>\<open>fmt.Sprintf\<close> or \<^verbatim>\<open>fmt.Errorf\<close> keeps its
  format string and the value printed for \<^verbatim>\<open>%v\<close>.\<close>

datatype error =
    ErrNoRows
  | DriverError nat
  | ParserError nat
  | InvalidPersistenceRequestError message
  | ConditionFailedError message
  | InternalServiceError message
  | InternalDataInconsistencyError message
  | EntityNotExistsError message
  | Errorf message
  | Panic string
and message = Msg string | Sprintf string fmt_arg
and fmt_arg = ArgInt int | ArgBytes bytes | ArgError error

record HistoryBranchRange =
  BranchID :: string
  BeginNodeID :: int64
  EndNodeID :: int64

record HistoryBranch =
  hb_TreeID :: string
  hb_BranchID :: string
  Ancestors :: "HistoryBranchRange list"

record DataBlob =
  Data :: bytes
  Encoding :: string

record HistoryTreeInfo =
  ti_Ancestors :: "HistoryBranchRange list"
  ti_Info :: string
  ti_CreatedTimestamp :: int

text \<open>Rows and filters of the database plugin (\<^verbatim>\<open>sqlplugin\<close>). The payload of a tree row is
  of a type \<open>'b\<close> (Go: \<^verbatim>\<open>[]byte\<close>), written and read only by the parser.\<close>

record HistoryNodeRow =
  hn_ShardID :: int
  hn_TreeID :: UUID
  hn_BranchID :: UUID
  hn_NodeID :: int64
  hn_TxnID :: int64
  hn_Data :: bytes
  hn_DataEncoding :: string

record 'b HistoryTreeRow =
  ht_ShardID :: int
  ht_TreeID :: UUID
  ht_BranchID :: UUID
  ht_Data :: 'b
  ht_DataEncoding :: string

record HistoryNodeFilter =
  nf_ShardID :: int
  nf_TreeID :: UUID
  nf_BranchID :: UUID
  nf_MinNodeID :: int64
  nf_MaxNodeID :: "int64 option"
  nf_PageSize :: int

record HistoryTreeFilter =
  tf_ShardID :: int
  tf_TreeID :: UUID
  tf_BranchID :: "UUID option"
  tf_PageSize :: "int option"

record historyTreePageToken =
  pt_ShardID :: int
  pt_TreeID :: UUID
  pt_BranchID :: UUID

text \<open>Requests and responses of the store (\<^verbatim>\<open>persistence.Internal...\<close>).\<close>

record InternalAppendHistoryNodesRequest =
  ap_IsNewBranch :: bool
  ap_Info :: string
  ap_BranchInfo :: HistoryBranch
  ap_NodeID :: int64
  ap_Events :: DataBlob
  ap_TransactionID :: int64
  ap_ShardID :: int

record InternalReadHistoryBranchRequest =
  rd_TreeID :: string
  rd_BranchID :: string
  rd_MinNodeID :: int64
  rd_MaxNodeID :: int64
  rd_PageSize :: int
  rd_NextPageToken :: bytes
  rd_LastNodeID :: int64
  rd_LastTransactionID :: int64
  rd_ShardID :: int

record InternalReadHistoryBranchResponse =
  History :: "DataBlob list"
  NextPageToken :: bytes
  LastNodeID :: int64
  LastTransactionID :: int64

record InternalForkHistoryBranchRequest =
  fk_ForkBranchInfo :: HistoryBranch
  fk_ForkNodeID :: int64
  fk_NewBranchID :: string
  fk_Info :: string
  fk_ShardID :: int

record InternalForkHistoryBranchResponse =
  NewBranchInfo :: HistoryBranch

record InternalDeleteHistoryBranchRequest =
  dl_BranchInfo :: HistoryBranch
  dl_ShardID :: int

record InternalGetHistoryTreeRequest =
  gt_TreeID :: string
  gt_ShardID :: "int option"

record InternalGetHistoryTreeResponse =
  Branches :: "HistoryBranch list"

record GetAllHistoryTreeBranchesRequest =
  ga_NextPageToken :: "bytes option"
  ga_PageSize :: int

record HistoryBranchDetail =
  bd_TreeID :: string
  bd_BranchID :: string
  bd_ForkTime :: int
  bd_Info :: string

record GetAllHistoryTreeBranchesResponse =
  ga_Branches :: "HistoryBranchDetail list"
  ga_ResponseToken :: bytes

section \<open>What the store is built on\<close>

text \<open>
  The store holds a database handle, a parser and a few helpers of its package; none of them
  is part of the modelled files, so they are fields of the store and every theorem below holds
  for each choice of them, unless it says otherwise. The database is a state of type \<open>'s\<close>:
  a statement either fails with an error and leaves the state alone, or yields a result (whose
  \<^verbatim>\<open>RowsAffected()\<close> is an error or a count) and the next state. A query yields an error
  or rows. \<open>MustParseUUID\<close> is \<open>None\<close> where the Go function panics.
\<close>

type_synonym sql_result = "error + int"

record ('b, 's) sqlHistoryStore =
  InsertIntoHistoryNode :: "HistoryNodeRow \<Rightarrow> 's \<Rightarrow> error + (sql_result \<times> 's)"
  InsertIntoHistoryTree :: "'b HistoryTreeRow \<Rightarrow> 's \<Rightarrow> error + (sql_result \<times> 's)"
  SelectFromHistoryNode :: "HistoryNodeFilter \<Rightarrow> 's \<Rightarrow> error + HistoryNodeRow list"
  SelectFromHistoryTree :: "HistoryTreeFilter \<Rightarrow> 's \<Rightarrow> error + 'b HistoryTreeRow list"
  DeleteFromHistoryTree :: "HistoryTreeFilter \<Rightarrow> 's \<Rightarrow> error + (sql_result \<times> 's)"
  DeleteFromHistoryNode :: "HistoryNodeFilter \<Rightarrow> 's \<Rightarrow> error + (sql_result \<times> 's)"
  db_GetAllHistoryTreeBranches :: "HistoryTreeFilter \<Rightarrow> 's \<Rightarrow> error + 'b HistoryTreeRow list"
  IsDupEntryError :: "error \<Rightarrow> bool"
  HistoryTreeInfoToBlob :: "HistoryTreeInfo \<Rightarrow> error + ('b \<times> string)"
  HistoryTreeInfoFromBlob :: "'b \<Rightarrow> string \<Rightarrow> error + HistoryTreeInfo"
  convertCommonErrors :: "string \<Rightarrow> string \<Rightarrow> error \<Rightarrow> error"
  MustParseUUID :: "string \<Rightarrow> UUID option"
  UUID_String :: "UUID \<Rightarrow> string"
  serializePageToken :: "int64 \<Rightarrow> bytes"
  deserializePageToken :: "bytes \<Rightarrow> int64 option"
  gobSerialize :: "historyTreePageToken \<Rightarrow> error + bytes"
  gobDeserialize :: "bytes \<Rightarrow> historyTreePageToken option"
  UnknownNumRowsAffected :: int

definition defaultHistoryNodeDeleteBatch :: int where
  "defaultHistoryNodeDeleteBatch = 1000"

text \<open>
  Modelled from the spec: \<^verbatim>\<open>txExecute\<close>, the transaction wrapper of the store's package,
  is not among the modelled files. The spec has the SQL backend wrap the statements of
  \<^verbatim>\<open>insertTreeAndNode\<close> in a transaction, atomically: the closure runs on the state; when it
  fails its writes are rolled back and the error goes through \<open>convertCommonErrors\<close>, when it
  succeeds they are committed. A panic in the closure is not an error value and passes
  unconverted, with nothing committed.
\<close>

definition txExecute ::
  "('b, 's) sqlHistoryStore \<Rightarrow> string \<Rightarrow> ('s \<Rightarrow> (error + unit) \<times> 's) \<Rightarrow> 's \<Rightarrow> error option \<times> 's"
where
  "txExecute m operation f s =
     (case f s of
        (Inl (Panic p), _) \<Rightarrow> (Some (Panic p), s)
      | (Inl err, _) \<Rightarrow> (Some (convertCommonErrors m operation [] err), s)
      | (Inr _, s') \<Rightarrow> (None, s'))"

section \<open>GetBeginNodeID and GetBranchesMaxReferredNodeIDs\<close>

definition GetBeginNodeID :: "HistoryBranch \<Rightarrow> int64" where
  "GetBeginNodeID bi =
     (if length (Ancestors bi) = 0 then 1
      else EndNodeID (Ancestors bi ! (length (Ancestors bi) - 1)))"

text \<open>The inner and the outer loop of \<^verbatim>\<open>GetBranchesMaxReferredNodeIDs\<close>; the Go map is a
  partial function from branch ids.\<close>

fun maxReferredOfRanges ::
  "HistoryBranchRange list \<Rightarrow> (string \<rightharpoonup> int64) \<Rightarrow> (string \<rightharpoonup> int64)"
where
  "maxReferredOfRanges [] validBRsMaxEndNode = validBRsMaxEndNode"
| "maxReferredOfRanges (br # brs) validBRsMaxEndNode =
     maxReferredOfRanges brs
       (case validBRsMaxEndNode (BranchID br) of
          None \<Rightarrow> validBRsMaxEndNode(BranchID br \<mapsto> EndNodeID br)
        | Some cur \<Rightarrow>
            if cur < EndNodeID br then validBRsMaxEndNode(BranchID br \<mapsto> EndNodeID br)
            else validBRsMaxEndNode)"

fun maxReferredOfBranches ::
  "HistoryBranch list \<Rightarrow> (string \<rightharpoonup> int64) \<Rightarrow> (string \<rightharpoonup> int64)"
where
  "maxReferredOfBranches [] validBRsMaxEndNode = validBRsMaxEndNode"
| "maxReferredOfBranches (b # bs) validBRsMaxEndNode =
     maxReferredOfBranches bs (maxReferredOfRanges (Ancestors b) validBRsMaxEndNode)"

definition GetBranchesMaxReferredNodeIDs :: "HistoryBranch list \<Rightarrow> (string \<rightharpoonup> int64)" where
  "GetBranchesMaxReferredNodeIDs branches = maxReferredOfBranches branches Map.empty"

section \<open>AppendHistoryNodes\<close>

text \<open>The closure that \<^verbatim>\<open>AppendHistoryNodes\<close> hands to \<^verbatim>\<open>txExecute\<close> for a new branch:
  the node row, then the tree row, each checked to affect exactly one row.\<close>

definition AppendHistoryNodes_tx ::
  "('b, 's) sqlHistoryStore \<Rightarrow> HistoryNodeRow \<Rightarrow> 'b HistoryTreeRow \<Rightarrow> 's \<Rightarrow> (error + unit) \<times> 's"
where
  "AppendHistoryNodes_tx m nodeRow treeRow s =
     (case InsertIntoHistoryNode m nodeRow s of
        Inl err \<Rightarrow> (Inl err, s)
      | Inr (result, s1) \<Rightarrow>
         (case result of
            Inl err \<Rightarrow> (Inl err, s1)
          | Inr rowsAffected \<Rightarrow>
             if rowsAffected \<noteq> 1 then
               (Inl (Errorf (Sprintf ''expected 1 row to be affected for node table, got %v''
                               (ArgInt rowsAffected))), s1)
             else
               (case InsertIntoHistoryTree m treeRow s1 of
                  Inl err \<Rightarrow> (Inl err, s1)
                | Inr (result, s2) \<Rightarrow>
                   (case result of
                      Inl err \<Rightarrow> (Inl err, s2)
                    | Inr rowsAffected \<Rightarrow>
                       if rowsAffected \<noteq> 1 then
                         (Inl (Errorf (Sprintf ''expected 1 row to be affected for tree table, got %v''
                                         (ArgInt rowsAffected))), s2)
                       else (Inr (), s2)))))"

text \<open>The two rows \<^verbatim>\<open>AppendHistoryNodes\<close> builds: \<^verbatim>\<open>nodeRow\<close>, and \<^verbatim>\<open>treeRow\<close> around the
  blob of the tree info.\<close>

definition append_nodeRow ::
  "InternalAppendHistoryNodesRequest \<Rightarrow> UUID \<Rightarrow> UUID \<Rightarrow> HistoryNodeRow"
where
  "append_nodeRow request treeUUID branchUUID =
     \<lparr>hn_ShardID = ap_ShardID request, hn_TreeID = treeUUID, hn_BranchID = branchUUID,
      hn_NodeID = ap_NodeID request, hn_TxnID = ap_TransactionID request,
      hn_Data = Data (ap_Events request), hn_DataEncoding = Encoding (ap_Events request)\<rparr>"

definition append_treeInfo :: "InternalAppendHistoryNodesRequest \<Rightarrow> int \<Rightarrow> HistoryTreeInfo" where
  "append_treeInfo request now =
     \<lparr>ti_Ancestors = Ancestors (ap_BranchInfo request), ti_Info = ap_Info request,
      ti_CreatedTimestamp = now\<rparr>"

definition append_treeRow ::
  "InternalAppendHistoryNodesRequest \<Rightarrow> UUID \<Rightarrow> UUID \<Rightarrow> 'b \<Rightarrow> string \<Rightarrow> 'b HistoryTreeRow"
where
  "append_treeRow request treeUUID branchUUID blobData blobEncoding =
     \<lparr>ht_ShardID = ap_ShardID request, ht_TreeID = treeUUID, ht_BranchID = branchUUID,
      ht_Data = blobData, ht_DataEncoding = blobEncoding\<rparr>"

definition AppendHistoryNodes ::
  "('b, 's) sqlHistoryStore \<Rightarrow> int \<Rightarrow> InternalAppendHistoryNodesRequest \<Rightarrow> 's \<Rightarrow> error option \<times> 's"
where
  "AppendHistoryNodes m now request s =
     (let branchInfo = ap_BranchInfo request;
          beginNodeID = GetBeginNodeID branchInfo
      in
      if ap_NodeID request < beginNodeID then
        (Some (InvalidPersistenceRequestError (Msg ''cannot append to ancestors' nodes'')), s)
      else
        (case MustParseUUID m (hb_TreeID branchInfo) of
           None \<Rightarrow> (Some (Panic ''MustParseUUID''), s)
         | Some treeUUID \<Rightarrow>
        (case MustParseUUID m (hb_BranchID branchInfo) of
           None \<Rightarrow> (Some (Panic ''MustParseUUID''), s)
         | Some branchUUID \<Rightarrow>
          (let nodeRow = append_nodeRow request treeUUID branchUUID in
           if ap_IsNewBranch request then
             (case HistoryTreeInfoToBlob m (append_treeInfo request now) of
                Inl err \<Rightarrow> (Some err, s)
              | Inr (blobData, blobEncoding) \<Rightarrow>
                  txExecute m ''AppendHistoryNodes''
                    (AppendHistoryNodes_tx m nodeRow
                       (append_treeRow request treeUUID branchUUID blobData blobEncoding)) s)
           else
             (case InsertIntoHistoryNode m nodeRow s of
                Inl err \<Rightarrow>
                  if IsDupEntryError m err then
                    (Some (ConditionFailedError
                             (Sprintf ''AppendHistoryNodes: row already exist: %v'' (ArgError err))), s)
                  else (Some (convertCommonErrors m ''AppendHistoryEvents'' [] err), s)
              | Inr (_, s1) \<Rightarrow> (None, s1))))))"

section \<open>ReadHistoryBranch\<close>

text \<open>The loop over the rows of one page. It carries the watermark \<open>(lastNodeID, lastTxnID)\<close>
  and the blobs accepted so far, and stops at the first corrupted row.\<close>

fun walkRows ::
  "HistoryNodeRow list \<Rightarrow> int64 \<Rightarrow> int64 \<Rightarrow> DataBlob list \<Rightarrow> error + (DataBlob list \<times> int64 \<times> int64)"
where
  "walkRows [] lastNodeID lastTxnID history = Inr (history, lastNodeID, lastTxnID)"
| "walkRows (row # rows) lastNodeID lastTxnID history =
     (if hn_TxnID row < lastTxnID then
        (if hn_NodeID row < lastNodeID then
           Inl (InternalDataInconsistencyError (Msg ''corrupted data, nodeID cannot decrease''))
         else if hn_NodeID row > lastNodeID then walkRows rows (hn_NodeID row) lastTxnID history
         else walkRows rows lastNodeID lastTxnID history)
      else if hn_NodeID row < lastNodeID then
        Inl (InternalDataInconsistencyError (Msg ''corrupted data, nodeID cannot decrease''))
      else if hn_NodeID row = lastNodeID then
        Inl (InternalDataInconsistencyError
               (Msg ''corrupted data, same nodeID must have smaller txnID''))
      else
        walkRows rows (hn_NodeID row) (hn_TxnID row)
          (history @ [\<lparr>Data = hn_Data row, Encoding = hn_DataEncoding row\<rparr>]))"

text \<open>Lines 161 to 186: the lower bound of the query, taken from the page token when the
  request has one, and the filter handed to the database.\<close>

definition readMinNodeID ::
  "('b, 's) sqlHistoryStore \<Rightarrow> InternalReadHistoryBranchRequest \<Rightarrow> error + int64"
where
  "readMinNodeID m request =
     (if length (rd_NextPageToken request) > 0 then
        (case deserializePageToken m (rd_NextPageToken request) of
           None \<Rightarrow>
             Inl (InternalServiceError
                    (Sprintf ''invalid next page token %v'' (ArgBytes (rd_NextPageToken request))))
         | Some lastNodeID \<Rightarrow> Inr (wrap64 (lastNodeID + 1)))
      else Inr (rd_MinNodeID request))"

definition readFilter ::
  "('b, 's) sqlHistoryStore \<Rightarrow> InternalReadHistoryBranchRequest \<Rightarrow> error + HistoryNodeFilter"
where
  "readFilter m request =
     (case readMinNodeID m request of
        Inl err \<Rightarrow> Inl err
      | Inr minNodeID \<Rightarrow>
         (case MustParseUUID m (rd_TreeID request) of
            None \<Rightarrow> Inl (Panic ''MustParseUUID'')
          | Some treeUUID \<Rightarrow>
         (case MustParseUUID m (rd_BranchID request) of
            None \<Rightarrow> Inl (Panic ''MustParseUUID'')
          | Some branchUUID \<Rightarrow>
             Inr \<lparr>nf_ShardID = rd_ShardID request, nf_TreeID = treeUUID, nf_BranchID = branchUUID,
                  nf_MinNodeID = minNodeID, nf_MaxNodeID = Some (rd_MaxNodeID request),
                  nf_PageSize = rd_PageSize request\<rparr>)))"

definition emptyReadResponse :: InternalReadHistoryBranchResponse where
  "emptyReadResponse = \<lparr>History = [], NextPageToken = [], LastNodeID = 0, LastTransactionID = 0\<rparr>"

definition ReadHistoryBranch ::
  "('b, 's) sqlHistoryStore \<Rightarrow> InternalReadHistoryBranchRequest \<Rightarrow> 's
     \<Rightarrow> error + InternalReadHistoryBranchResponse"
where
  "ReadHistoryBranch m request s =
     (case readFilter m request of
        Inl err \<Rightarrow> Inl err
      | Inr nodeFilter \<Rightarrow>
         (case SelectFromHistoryNode m nodeFilter s of
            Inl err \<Rightarrow>
              if err = ErrNoRows then Inr emptyReadResponse
              else Inl (convertCommonErrors m ''ReadHistoryBranch'' [] err)
          | Inr rows \<Rightarrow>
              if length rows = 0 then Inr emptyReadResponse
              else if rd_PageSize request < 0 then Inl (Panic ''makeslice: cap out of range'')
              else
                (case walkRows rows (rd_LastNodeID request) (rd_LastTransactionID request) [] of
                   Inl err \<Rightarrow> Inl err
                 | Inr (history, lastNodeID, lastTxnID) \<Rightarrow>
                     Inr \<lparr>History = history,
                          NextPageToken =
                            (if int (length rows) \<ge> rd_PageSize request
                             then serializePageToken m lastNodeID else []),
                          LastNodeID = lastNodeID,
                          LastTransactionID = lastTxnID\<rparr>)))"

section \<open>ForkHistoryBranch\<close>

text \<open>The loop over the ancestors of the forking branch, with its \<^verbatim>\<open>break\<close>.\<close>

fun forkWalk ::
  "HistoryBranchRange list \<Rightarrow> int64 \<Rightarrow> HistoryBranchRange list \<Rightarrow> HistoryBranchRange list"
where
  "forkWalk [] forkNodeID newAncestors = newAncestors"
| "forkWalk (br # brs) forkNodeID newAncestors =
     (if EndNodeID br \<ge> forkNodeID then
        newAncestors @ [\<lparr>BranchID = BranchID br, BeginNodeID = BeginNodeID br,
                          EndNodeID = forkNodeID\<rparr>]
      else forkWalk brs forkNodeID (newAncestors @ [br]))"

definition forkNewAncestors :: "HistoryBranch \<Rightarrow> int64 \<Rightarrow> HistoryBranchRange list" where
  "forkNewAncestors forkB forkNodeID =
     (let beginNodeID = GetBeginNodeID forkB in
      if beginNodeID \<ge> forkNodeID then forkWalk (Ancestors forkB) forkNodeID []
      else Ancestors forkB @ [\<lparr>BranchID = hb_BranchID forkB, BeginNodeID = beginNodeID,
                                 EndNodeID = forkNodeID\<rparr>])"

text \<open>The response, the tree info and the tree row \<^verbatim>\<open>ForkHistoryBranch\<close> builds.\<close>

definition fork_resp :: "InternalForkHistoryBranchRequest \<Rightarrow> InternalForkHistoryBranchResponse" where
  "fork_resp request =
     \<lparr>NewBranchInfo =
        \<lparr>hb_TreeID = hb_TreeID (fk_ForkBranchInfo request), hb_BranchID = fk_NewBranchID request,
         Ancestors = forkNewAncestors (fk_ForkBranchInfo request) (fk_ForkNodeID request)\<rparr>\<rparr>"

definition fork_treeInfo :: "InternalForkHistoryBranchRequest \<Rightarrow> int \<Rightarrow> HistoryTreeInfo" where
  "fork_treeInfo request now =
     \<lparr>ti_Ancestors = forkNewAncestors (fk_ForkBranchInfo request) (fk_ForkNodeID request),
      ti_Info = fk_Info request, ti_CreatedTimestamp = now\<rparr>"

definition fork_row ::
  "InternalForkHistoryBranchRequest \<Rightarrow> UUID \<Rightarrow> UUID \<Rightarrow> 'b \<Rightarrow> string \<Rightarrow> 'b HistoryTreeRow"
where
  "fork_row request treeUUID newBranchUUID blobData blobEncoding =
     \<lparr>ht_ShardID = fk_ShardID request, ht_TreeID = treeUUID, ht_BranchID = newBranchUUID,
      ht_Data = blobData, ht_DataEncoding = blobEncoding\<rparr>"

definition ForkHistoryBranch ::
  "('b, 's) sqlHistoryStore \<Rightarrow> int \<Rightarrow> InternalForkHistoryBranchRequest \<Rightarrow> 's
     \<Rightarrow> (error + InternalForkHistoryBranchResponse) \<times> 's"
where
  "ForkHistoryBranch m now request s =
     (case HistoryTreeInfoToBlob m (fork_treeInfo request now) of
        Inl err \<Rightarrow> (Inl err, s)
      | Inr (blobData, blobEncoding) \<Rightarrow>
         (case MustParseUUID m (hb_TreeID (fk_ForkBranchInfo request)) of
            None \<Rightarrow> (Inl (Panic ''MustParseUUID''), s)
          | Some treeUUID \<Rightarrow>
         (case MustParseUUID m (fk_NewBranchID request) of
            None \<Rightarrow> (Inl (Panic ''MustParseUUID''), s)
          | Some newBranchUUID \<Rightarrow>
             (case InsertIntoHistoryTree m
                     (fork_row request treeUUID newBranchUUID blobData blobEncoding) s of
                Inl err \<Rightarrow> (Inl (convertCommonErrors m ''ForkHistoryBranch'' [] err), s)
              | Inr (result, s1) \<Rightarrow>
                 (case result of
                    Inl err \<Rightarrow> (Inl err, s1)
                  | Inr rowsAffected \<Rightarrow>
                     if rowsAffected \<noteq> 1 then
                       (Inl (InternalServiceError
                               (Sprintf ''expected 1 row to be affected for tree table, got %v''
                                  (ArgInt rowsAffected))), s1)
                     else (Inr (fork_resp request), s1))))))"

section \<open>GetHistoryTree\<close>

text \<open>The loop over the tree rows: each row's payload is decoded and becomes a branch.\<close>

fun treeRowsToBranches ::
  "('b, 's) sqlHistoryStore \<Rightarrow> string \<Rightarrow> 'b HistoryTreeRow list \<Rightarrow> HistoryBranch list
     \<Rightarrow> error + HistoryBranch list"
where
  "treeRowsToBranches m treeID [] branches = Inr branches"
| "treeRowsToBranches m treeID (row # rows) branches =
     (case HistoryTreeInfoFromBlob m (ht_Data row) (ht_DataEncoding row) of
        Inl err \<Rightarrow> Inl err
      | Inr treeInfo \<Rightarrow>
          treeRowsToBranches m treeID rows
            (branches @ [\<lparr>hb_TreeID = treeID, hb_BranchID = UUID_String m (ht_BranchID row),
                            Ancestors = ti_Ancestors treeInfo\<rparr>]))"

definition GetHistoryTree ::
  "('b, 's) sqlHistoryStore \<Rightarrow> InternalGetHistoryTreeRequest \<Rightarrow> 's
     \<Rightarrow> error + InternalGetHistoryTreeResponse"
where
  "GetHistoryTree m request s =
     (case MustParseUUID m (gt_TreeID request) of
        None \<Rightarrow> Inl (Panic ''MustParseUUID'')
      | Some treeID \<Rightarrow>
     (case gt_ShardID request of
        None \<Rightarrow> Inl (Panic ''nil pointer dereference'')
      | Some shardID \<Rightarrow>
         (case SelectFromHistoryTree m
                 \<lparr>tf_ShardID = shardID, tf_TreeID = treeID, tf_BranchID = None,
                  tf_PageSize = None\<rparr> s of
            Inl err \<Rightarrow>
              if err = ErrNoRows then Inr \<lparr>Branches = []\<rparr>
              else Inl (convertCommonErrors m ''GetHistoryTree'' [] err)
          | Inr rows \<Rightarrow>
              if length rows = 0 then Inr \<lparr>Branches = []\<rparr>
              else
                (case treeRowsToBranches m (gt_TreeID request) rows [] of
                   Inl err \<Rightarrow> Inl err
                 | Inr branches \<Rightarrow> Inr \<lparr>Branches = branches\<rparr>))))"

section \<open>DeleteHistoryBranch\<close>

text \<open>The inner loop: one range is deleted in batches until a batch is not full. Nothing in
  the store bounds it, so it is a partial function: \<open>None\<close> is the loop that never ends.\<close>

partial_function (option) deleteNodesLoop ::
  "('b, 's) sqlHistoryStore \<Rightarrow> HistoryNodeFilter \<Rightarrow> 's \<Rightarrow> ((error + unit) \<times> 's) option"
where
  "deleteNodesLoop m nodeFilter s =
     (case DeleteFromHistoryNode m nodeFilter s of
        Inl err \<Rightarrow> Some (Inl err, s)
      | Inr (result, s1) \<Rightarrow>
         (case result of
            Inl err \<Rightarrow> Some (Inl err, s1)
          | Inr rowsAffected \<Rightarrow>
             if rowsAffected < defaultHistoryNodeDeleteBatch \<or>
                rowsAffected = UnknownNumRowsAffected m \<or>
                rowsAffected > defaultHistoryNodeDeleteBatch
             then Some (Inr (), s1)
             else deleteNodesLoop m nodeFilter s1))"

declare deleteNodesLoop.simps [code]

text \<open>The outer loop, over the ranges in the order the code visits them (the last range of
  \<^verbatim>\<open>brsToDelete\<close> first).\<close>

fun deleteRanges ::
  "('b, 's) sqlHistoryStore \<Rightarrow> string \<Rightarrow> int \<Rightarrow> (string \<rightharpoonup> int64) \<Rightarrow> HistoryBranchRange list \<Rightarrow> 's
     \<Rightarrow> ((error + unit) \<times> 's) option"
where
  "deleteRanges m treeID shardID validBRsMaxEndNode [] s = Some (Inr (), s)"
| "deleteRanges m treeID shardID validBRsMaxEndNode (br # brs) s =
     (case MustParseUUID m treeID of
        None \<Rightarrow> Some (Inl (Panic ''MustParseUUID''), s)
      | Some treeUUID \<Rightarrow>
     (case MustParseUUID m (BranchID br) of
        None \<Rightarrow> Some (Inl (Panic ''MustParseUUID''), s)
      | Some branchUUID \<Rightarrow>
        (let nodeFilter =
               \<lparr>nf_ShardID = shardID, nf_TreeID = treeUUID, nf_BranchID = branchUUID,
                nf_MinNodeID =
                  (case validBRsMaxEndNode (BranchID br) of
                     Some maxReferredEndNodeID \<Rightarrow> maxReferredEndNodeID
                   | None \<Rightarrow> BeginNodeID br),
                nf_MaxNodeID = None, nf_PageSize = defaultHistoryNodeDeleteBatch\<rparr>
         in
         case deleteNodesLoop m nodeFilter s of
           None \<Rightarrow> None
         | Some (Inl err, s1) \<Rightarrow> Some (Inl err, s1)
         | Some (Inr _, s1) \<Rightarrow>
             if validBRsMaxEndNode (BranchID br) \<noteq> None then Some (Inr (), s1)
             else deleteRanges m treeID shardID validBRsMaxEndNode brs s1)))"

text \<open>The closure handed to \<^verbatim>\<open>txExecute\<close>: the tree row of the branch, then the ranges.\<close>

definition DeleteHistoryBranch_tx ::
  "('b, 's) sqlHistoryStore \<Rightarrow> InternalDeleteHistoryBranchRequest \<Rightarrow> UUID \<Rightarrow> (string \<rightharpoonup> int64)
     \<Rightarrow> HistoryBranchRange list \<Rightarrow> 's \<Rightarrow> ((error + unit) \<times> 's) option"
where
  "DeleteHistoryBranch_tx m request treeUUID validBRsMaxEndNode brsToDelete s =
     (case MustParseUUID m (hb_BranchID (dl_BranchInfo request)) of
        None \<Rightarrow> Some (Inl (Panic ''MustParseUUID''), s)
      | Some branchID \<Rightarrow>
         (case DeleteFromHistoryTree m
                 \<lparr>tf_ShardID = dl_ShardID request, tf_TreeID = treeUUID,
                  tf_BranchID = Some branchID, tf_PageSize = None\<rparr> s of
            Inl err \<Rightarrow> Some (Inl err, s)
          | Inr (_, s1) \<Rightarrow>
              deleteRanges m (hb_TreeID (dl_BranchInfo request)) (dl_ShardID request)
                validBRsMaxEndNode (rev brsToDelete) s1))"

definition DeleteHistoryBranch ::
  "('b, 's) sqlHistoryStore \<Rightarrow> InternalDeleteHistoryBranchRequest \<Rightarrow> 's \<Rightarrow> (error option \<times> 's) option"
where
  "DeleteHistoryBranch m request s =
     (let branch = dl_BranchInfo request;
          treeID = hb_TreeID branch;
          beginNodeID = GetBeginNodeID branch;
          brsToDelete = Ancestors branch @
                          [\<lparr>BranchID = hb_BranchID branch, BeginNodeID = beginNodeID,
                            EndNodeID = 0\<rparr>]
      in
      case GetHistoryTree m \<lparr>gt_TreeID = treeID, gt_ShardID = Some (dl_ShardID request)\<rparr> s of
        Inl err \<Rightarrow> Some (Some err, s)
      | Inr rsp \<Rightarrow>
         (let validBRsMaxEndNode = GetBranchesMaxReferredNodeIDs (Branches rsp) in
          case MustParseUUID m treeID of
            None \<Rightarrow> Some (Some (Panic ''MustParseUUID''), s)
          | Some treeUUID \<Rightarrow>
             (case DeleteHistoryBranch_tx m request treeUUID validBRsMaxEndNode brsToDelete s of
                None \<Rightarrow> None
              | Some r \<Rightarrow> Some (txExecute m ''DeleteHistoryBranch'' (\<lambda>_. r) s))))"

section \<open>GetAllHistoryTreeBranches\<close>

fun branchDetails ::
  "('b, 's) sqlHistoryStore \<Rightarrow> 'b HistoryTreeRow list \<Rightarrow> error + HistoryBranchDetail list"
where
  "branchDetails m [] = Inr []"
| "branchDetails m (row # rows) =
     (case HistoryTreeInfoFromBlob m (ht_Data row) (ht_DataEncoding row) of
        Inl err \<Rightarrow> Inl err
      | Inr treeInfo \<Rightarrow>
         (case branchDetails m rows of
            Inl err \<Rightarrow> Inl err
          | Inr ds \<Rightarrow>
              Inr (\<lparr>bd_TreeID = UUID_String m (ht_TreeID row),
                    bd_BranchID = UUID_String m (ht_BranchID row),
                    bd_ForkTime = ti_CreatedTimestamp treeInfo,
                    bd_Info = ti_Info treeInfo\<rparr> # ds)))"

definition allBranchesPage ::
  "('b, 's) sqlHistoryStore \<Rightarrow> GetAllHistoryTreeBranchesRequest \<Rightarrow> error + historyTreePageToken"
where
  "allBranchesPage m request =
     (case ga_NextPageToken request of
        Some token \<Rightarrow>
          (case gobDeserialize m token of
             None \<Rightarrow> Inl (Errorf (Msg ''unable to decode next page token''))
           | Some page \<Rightarrow> Inr page)
      | None \<Rightarrow> Inr \<lparr>pt_ShardID = 0, pt_TreeID = [], pt_BranchID = []\<rparr>)"

definition GetAllHistoryTreeBranches ::
  "('b, 's) sqlHistoryStore \<Rightarrow> GetAllHistoryTreeBranchesRequest \<Rightarrow> 's
     \<Rightarrow> error + GetAllHistoryTreeBranchesResponse"
where
  "GetAllHistoryTreeBranches m request s =
     (case allBranchesPage m request of
        Inl err \<Rightarrow> Inl err
      | Inr page \<Rightarrow>
         (case db_GetAllHistoryTreeBranches m
                 \<lparr>tf_ShardID = pt_ShardID page, tf_TreeID = pt_TreeID page,
                  tf_BranchID = Some (pt_BranchID page),
                  tf_PageSize = Some (ga_PageSize request)\<rparr> s of
            Inl err \<Rightarrow>
              if err = ErrNoRows then Inr \<lparr>ga_Branches = [], ga_ResponseToken = []\<rparr>
              else Inl (convertCommonErrors m ''GetAllHistoryTreeBranches'' [] err)
          | Inr rows \<Rightarrow>
              if length rows = 0 then Inr \<lparr>ga_Branches = [], ga_ResponseToken = []\<rparr>
              else
                (case branchDetails m rows of
                   Inl err \<Rightarrow> Inl err
                 | Inr branches \<Rightarrow>
                     if int (length rows) \<ge> ga_PageSize request then
                       (if ga_PageSize request - 1 < 0 then Inl (Panic ''index out of range'')
                        else
                          (let lastRow = rows ! nat (ga_PageSize request - 1) in
                           case gobSerialize m
                                  \<lparr>pt_ShardID = ht_ShardID lastRow, pt_TreeID = ht_TreeID lastRow,
                                   pt_BranchID = ht_BranchID lastRow\<rparr> of
                             Inl err \<Rightarrow>
                               Inl (InternalServiceError
                                      (Sprintf ''error serializing nextPageToken:%v'' (ArgError err)))
                           | Inr token \<Rightarrow>
                               Inr \<lparr>ga_Branches = branches, ga_ResponseToken = token\<rparr>))
                     else Inr \<lparr>ga_Branches = branches, ga_ResponseToken = []\<rparr>)))"

section \<open>A reference backend in memory\<close>

text \<open>
  Modelled from the spec: the database plugin (\<^verbatim>\<open>sqlplugin.DB\<close>, \<^verbatim>\<open>sqlplugin.Tx\<close>), the
  parser and the token codecs are not among the modelled files. This backend follows the
  spec's driver interface and logical schema: \<^verbatim>\<open>history_node\<close> with primary key
  (shard, tree, branch, node, txn), \<^verbatim>\<open>history_tree\<close> with primary key (shard, tree,
  branch); an insert of a present key fails with a duplicate-key error and any other insert
  affects one row; node rows are selected for one branch in \<open>[minNodeId, maxNodeId)\<close>, sorted
  by node id ascending and then transaction id descending, one page at most; a node delete
  removes rows of one branch from \<open>minNodeId\<close> on, one batch at most; the node-read token is
  the signed 64-bit node id (here as 8 bytes, lowest first). It is used to run the store on
  concrete databases; no general theorem depends on it.
\<close>

record 'b memDB =
  tree_table :: "'b HistoryTreeRow list"
  node_table :: "HistoryNodeRow list"

definition dupEntry :: error where
  "dupEntry = DriverError 1062"

definition mem_InsertIntoHistoryNode ::
  "HistoryNodeRow \<Rightarrow> 'b memDB \<Rightarrow> error + (sql_result \<times> 'b memDB)"
where
  "mem_InsertIntoHistoryNode row s =
     (if list_ex (\<lambda>r. hn_ShardID r = hn_ShardID row \<and> hn_TreeID r = hn_TreeID row \<and>
                       hn_BranchID r = hn_BranchID row \<and> hn_NodeID r = hn_NodeID row \<and>
                       hn_TxnID r = hn_TxnID row) (node_table s)
      then Inl dupEntry
      else Inr (Inr 1, s\<lparr>node_table := node_table s @ [row]\<rparr>))"

definition mem_InsertIntoHistoryTree ::
  "'b HistoryTreeRow \<Rightarrow> 'b memDB \<Rightarrow> error + (sql_result \<times> 'b memDB)"
where
  "mem_InsertIntoHistoryTree row s =
     (if list_ex (\<lambda>r. ht_ShardID r = ht_ShardID row \<and> ht_TreeID r = ht_TreeID row \<and>
                       ht_BranchID r = ht_BranchID row) (tree_table s)
      then Inl dupEntry
      else Inr (Inr 1, s\<lparr>tree_table := tree_table s @ [row]\<rparr>))"

definition nodeMatches :: "HistoryNodeFilter \<Rightarrow> HistoryNodeRow \<Rightarrow> bool" where
  "nodeMatches f r =
     (hn_ShardID r = nf_ShardID f \<and> hn_TreeID r = nf_TreeID f \<and> hn_BranchID r = nf_BranchID f \<and>
      nf_MinNodeID f \<le> hn_NodeID r \<and>
      (case nf_MaxNodeID f of None \<Rightarrow> True | Some maxNodeID \<Rightarrow> hn_NodeID r < maxNodeID))"

definition mem_SelectFromHistoryNode ::
  "HistoryNodeFilter \<Rightarrow> 'b memDB \<Rightarrow> error + HistoryNodeRow list"
where
  "mem_SelectFromHistoryNode f s =
     Inr (take (nat (nf_PageSize f))
            (sort_key hn_NodeID
               (sort_key (\<lambda>r. - hn_TxnID r) (filter (nodeMatches f) (node_table s)))))"

definition treeMatches :: "HistoryTreeFilter \<Rightarrow> 'b HistoryTreeRow \<Rightarrow> bool" where
  "treeMatches f r =
     (ht_ShardID r = tf_ShardID f \<and> ht_TreeID r = tf_TreeID f \<and>
      (case tf_BranchID f of None \<Rightarrow> True | Some branchID \<Rightarrow> ht_BranchID r = branchID))"

definition mem_SelectFromHistoryTree ::
  "HistoryTreeFilter \<Rightarrow> 'b memDB \<Rightarrow> error + 'b HistoryTreeRow list"
where
  "mem_SelectFromHistoryTree f s = Inr (filter (treeMatches f) (tree_table s))"

definition mem_DeleteFromHistoryTree ::
  "HistoryTreeFilter \<Rightarrow> 'b memDB \<Rightarrow> error + (sql_result \<times> 'b memDB)"
where
  "mem_DeleteFromHistoryTree f s =
     Inr (Inr (int (length (filter (treeMatches f) (tree_table s)))),
          s\<lparr>tree_table := filter (\<lambda>r. \<not> treeMatches f r) (tree_table s)\<rparr>)"

fun removeFirstN :: "nat \<Rightarrow> ('a \<Rightarrow> bool) \<Rightarrow> 'a list \<Rightarrow> 'a list" where
  "removeFirstN n P [] = []"
| "removeFirstN n P (x # xs) =
     (if n = 0 then x # xs
      else if P x then removeFirstN (n - 1) P xs
      else x # removeFirstN n P xs)"

definition mem_DeleteFromHistoryNode ::
  "HistoryNodeFilter \<Rightarrow> 'b memDB \<Rightarrow> error + (sql_result \<times> 'b memDB)"
where
  "mem_DeleteFromHistoryNode f s =
     (let rest = removeFirstN (nat (nf_PageSize f)) (nodeMatches f) (node_table s) in
      Inr (Inr (int (length (node_table s)) - int (length rest)), s\<lparr>node_table := rest\<rparr>))"

text \<open>The enumeration of tree rows serves one shard: the rows of the filter's shard after
  the filter's (tree, branch), in that order, one page at most. The spec leaves the walk over
  the shards to the caller.\<close>

definition mem_GetAllHistoryTreeBranches ::
  "HistoryTreeFilter \<Rightarrow> 'b memDB \<Rightarrow> error + 'b HistoryTreeRow list"
where
  "mem_GetAllHistoryTreeBranches f s =
     Inr (take (nat (case tf_PageSize f of None \<Rightarrow> 0 | Some n \<Rightarrow> n))
            (sort_key ht_TreeID
               (sort_key ht_BranchID
                  (filter (\<lambda>r. ht_ShardID r = tf_ShardID f \<and>
                                (tf_TreeID f < ht_TreeID r \<or>
                                 (tf_TreeID f = ht_TreeID r \<and>
                                  (case tf_BranchID f of None \<Rightarrow> True
                                   | Some branchID \<Rightarrow> branchID < ht_BranchID r))))
                     (tree_table s)))))"

definition mem_serializePageToken :: "int64 \<Rightarrow> bytes" where
  "mem_serializePageToken n = map (\<lambda>i. word_of_int (n div 256 ^ i)) [0, 1, 2, 3, 4, 5, 6, 7]"

definition mem_deserializePageToken :: "bytes \<Rightarrow> int64 option" where
  "mem_deserializePageToken token =
     (if length token = 8 then Some (wrap64 (foldr (\<lambda>b acc. uint b + 256 * acc) token 0))
      else None)"

definition mem_gobSerialize :: "historyTreePageToken \<Rightarrow> error + bytes" where
  "mem_gobSerialize page =
     (if length (pt_TreeID page) > 255 then Inl (ParserError 0)
      else Inr (mem_serializePageToken (pt_ShardID page) @
                [of_nat (length (pt_TreeID page))] @
                map of_char (pt_TreeID page) @ map of_char (pt_BranchID page)))"

definition mem_gobDeserialize :: "bytes \<Rightarrow> historyTreePageToken option" where
  "mem_gobDeserialize token =
     (if length token < 9 \<or> length token < 9 + unat (token ! 8) then None
      else
        (case mem_deserializePageToken (take 8 token) of
           None \<Rightarrow> None
         | Some shardID \<Rightarrow>
             Some \<lparr>pt_ShardID = shardID,
                   pt_TreeID = map (\<lambda>b. char_of (unat b)) (take (unat (token ! 8)) (drop 9 token)),
                   pt_BranchID = map (\<lambda>b. char_of (unat b)) (drop (unat (token ! 8)) (drop 9 token))\<rparr>))"

definition memStore :: "(HistoryTreeInfo, HistoryTreeInfo memDB) sqlHistoryStore" where
  "memStore =
     \<lparr>InsertIntoHistoryNode = mem_InsertIntoHistoryNode,
      InsertIntoHistoryTree = mem_InsertIntoHistoryTree,
      SelectFromHistoryNode = mem_SelectFromHistoryNode,
      SelectFromHistoryTree = mem_SelectFromHistoryTree,
      DeleteFromHistoryTree = mem_DeleteFromHistoryTree,
      DeleteFromHistoryNode = mem_DeleteFromHistoryNode,
      db_GetAllHistoryTreeBranches = mem_GetAllHistoryTreeBranches,
      IsDupEntryError = (\<lambda>err. err = dupEntry),
      HistoryTreeInfoToBlob = (\<lambda>treeInfo. Inr (treeInfo, ''mem'')),
      HistoryTreeInfoFromBlob = (\<lambda>blob encoding. Inr blob),
      convertCommonErrors = (\<lambda>operation message err.
         InternalServiceError (Sprintf (operation @ '' failed. Error: %v'') (ArgError err))),
      MustParseUUID = Some,
      UUID_String = (\<lambda>u. u),
      serializePageToken = mem_serializePageToken,
      deserializePageToken = mem_deserializePageToken,
      gobSerialize = mem_gobSerialize,
      gobDeserialize = mem_gobDeserialize,
      UnknownNumRowsAffected = - 1\<rparr>"

section \<open>Notions of the specification\<close>

text \<open>The spec's error kind \<open>Corruption\<close> is Go's \<^verbatim>\<open>InternalDataInconsistencyError\<close>, whose
  messages all start with \<^verbatim>\<open>corrupted data, \<close>.\<close>

definition Corruption :: "string \<Rightarrow> error" where
  "Corruption msg = InternalDataInconsistencyError (Msg (''corrupted data, '' @ msg))"

definition InvalidRequest :: "string \<Rightarrow> error" where
  "InvalidRequest msg = InvalidPersistenceRequestError (Msg msg)"

text \<open>The blob a node row carries.\<close>

definition blobOf :: "HistoryNodeRow \<Rightarrow> DataBlob" where
  "blobOf row = \<lparr>Data = hn_Data row, Encoding = hn_DataEncoding row\<rparr>"

section \<open>Example data\<close>

text \<open>The branches of the comment on \<^verbatim>\<open>ForkHistoryBranch\<close>: \<open>B1\<close> is a root branch,
  \<open>B2\<close> inherits the nodes below 6 from \<open>B1\<close>.\<close>

definition ex_B1 :: HistoryBranch where
  "ex_B1 = \<lparr>hb_TreeID = ''T'', hb_BranchID = ''B1'', Ancestors = []\<rparr>"

definition ex_B2 :: HistoryBranch where
  "ex_B2 = \<lparr>hb_TreeID = ''T'', hb_BranchID = ''B2'',
            Ancestors = [\<lparr>BranchID = ''B1'', BeginNodeID = 1, EndNodeID = 6\<rparr>]\<rparr>"

definition ex_node :: "string \<Rightarrow> int64 \<Rightarrow> int64 \<Rightarrow> HistoryNodeRow" where
  "ex_node branch nodeID txnID =
     \<lparr>hn_ShardID = 0, hn_TreeID = ''T'', hn_BranchID = branch, hn_NodeID = nodeID,
      hn_TxnID = txnID, hn_Data = [word_of_int txnID], hn_DataEncoding = ''json''\<rparr>"

definition ex_tree :: "int \<Rightarrow> HistoryBranch \<Rightarrow> HistoryTreeInfo HistoryTreeRow" where
  "ex_tree shardID b =
     \<lparr>ht_ShardID = shardID, ht_TreeID = hb_TreeID b, ht_BranchID = hb_BranchID b,
      ht_Data = \<lparr>ti_Ancestors = Ancestors b, ti_Info = ''info'', ti_CreatedTimestamp = 0\<rparr>,
      ht_DataEncoding = ''mem''\<rparr>"

definition ex_emptyDB :: "HistoryTreeInfo memDB" where
  "ex_emptyDB = \<lparr>tree_table = [], node_table = []\<rparr>"

text \<open>\<open>B1\<close> with the nodes 1 and 3, and a stale write of node 3 (transaction 99 after 101).\<close>

definition ex_staleDB :: "HistoryTreeInfo memDB" where
  "ex_staleDB =
     \<lparr>tree_table = [ex_tree 0 ex_B1],
      node_table = [ex_node ''B1'' 1 100, ex_node ''B1'' 3 101, ex_node ''B1'' 3 99]\<rparr>"

definition ex_read :: "int \<Rightarrow> InternalReadHistoryBranchRequest" where
  "ex_read pageSize =
     \<lparr>rd_TreeID = ''T'', rd_BranchID = ''B1'', rd_MinNodeID = 1, rd_MaxNodeID = 6,
      rd_PageSize = pageSize, rd_NextPageToken = [], rd_LastNodeID = 0,
      rd_LastTransactionID = 0, rd_ShardID = 0\<rparr>"

definition ex_readFilter :: "int \<Rightarrow> HistoryNodeFilter" where
  "ex_readFilter pageSize =
     \<lparr>nf_ShardID = 0, nf_TreeID = ''T'', nf_BranchID = ''B1'', nf_MinNodeID = 1,
      nf_MaxNodeID = Some 6, nf_PageSize = pageSize\<rparr>"

definition ex_append ::
  "bool \<Rightarrow> HistoryBranch \<Rightarrow> int64 \<Rightarrow> int64 \<Rightarrow> InternalAppendHistoryNodesRequest"
where
  "ex_append isNew branch nodeID txnID =
     \<lparr>ap_IsNewBranch = isNew, ap_Info = ''info'', ap_BranchInfo = branch, ap_NodeID = nodeID,
      ap_Events = \<lparr>Data = [word_of_int txnID], Encoding = ''json''\<rparr>,
      ap_TransactionID = txnID, ap_ShardID = 0\<rparr>"

text \<open>Ancestor ranges are contiguous from \<open>a\<close> to \<open>b\<close> when the first begins at \<open>a\<close>, each
  next one begins where the one before it ends, and the last ends at \<open>b\<close>. The node ids
  they cover are those of the half-open intervals \<open>[BeginNodeID, EndNodeID)\<close>.\<close>

fun contiguous :: "int64 \<Rightarrow> HistoryBranchRange list \<Rightarrow> int64 \<Rightarrow> bool" where
  "contiguous a [] b = (a = b)"
| "contiguous a (r # rs) b = (BeginNodeID r = a \<and> contiguous (EndNodeID r) rs b)"

definition covered :: "HistoryBranchRange list \<Rightarrow> int64 set" where
  "covered rs = (\<Union>r\<in>set rs. {BeginNodeID r ..< EndNodeID r})"

definition ex_fork :: "int64 \<Rightarrow> InternalForkHistoryBranchRequest" where
  "ex_fork forkNodeID =
     \<lparr>fk_ForkBranchInfo = ex_B2, fk_ForkNodeID = forkNodeID, fk_NewBranchID = ''B3'',
      fk_Info = ''fork'', fk_ShardID = 0\<rparr>"

section \<open>The NoSQL history store\<close>

text \<open>
  The second implementation of the same six operations, \<^verbatim>\<open>nosqlHistoryStore\<close>. Its plugin
  (\<^verbatim>\<open>nosqlplugin\<close>) takes tree and branch ids as strings; a node row has the fields of the
  SQL plugin's node row, so the same record serves both. A tree row holds the ancestors
  themselves. The store finds the shard of the database with
  \<^verbatim>\<open>GetStoreShardByHistoryShard\<close>, whose sharding policy and connections are not among the
  modelled files: it is a field of the store, an error or a handle \<open>'d\<close> of the shard.
  A write either fails and leaves the state alone, or yields the next state.
\<close>

record nosqlHistoryTreeRow =
  nt_ShardID :: int
  nt_TreeID :: string
  nt_BranchID :: string
  nt_Ancestors :: "HistoryBranchRange list"
  nt_CreateTimestamp :: int
  nt_Info :: string

record nosqlHistoryNodeFilter =
  nnf_ShardID :: int
  nnf_TreeID :: string
  nnf_BranchID :: string
  nnf_MinNodeID :: int64
  nnf_MaxNodeID :: int64
  nnf_NextPageToken :: bytes
  nnf_PageSize :: int

record nosqlHistoryTreeFilter =
  ntf_ShardID :: int
  ntf_TreeID :: string
  ntf_BranchID :: "string option"

record ('d, 's) nosqlHistoryStore =
  GetStoreShardByHistoryShard :: "int \<Rightarrow> error + 'd"
  GetDefaultShard :: 'd
  hasShardedHistory :: bool
  InsertIntoHistoryTreeAndNode ::
    "'d \<Rightarrow> nosqlHistoryTreeRow option \<Rightarrow> HistoryNodeRow option \<Rightarrow> 's \<Rightarrow> error + 's"
  nosql_SelectFromHistoryNode ::
    "'d \<Rightarrow> nosqlHistoryNodeFilter \<Rightarrow> 's \<Rightarrow> error + (HistoryNodeRow list \<times> bytes)"
  nosql_SelectFromHistoryTree ::
    "'d \<Rightarrow> nosqlHistoryTreeFilter \<Rightarrow> 's \<Rightarrow> error + nosqlHistoryTreeRow list"
  DeleteFromHistoryTreeAndNode ::
    "'d \<Rightarrow> nosqlHistoryTreeFilter \<Rightarrow> nosqlHistoryNodeFilter list \<Rightarrow> 's \<Rightarrow> error + 's"
  SelectAllHistoryTrees ::
    "'d \<Rightarrow> bytes option \<Rightarrow> int \<Rightarrow> 's \<Rightarrow> error + (nosqlHistoryTreeRow list \<times> bytes)"
  nosql_convertCommonErrors :: "'d \<Rightarrow> string \<Rightarrow> error \<Rightarrow> error"

subsection \<open>AppendHistoryNodes\<close>

definition nosql_append_treeRow ::
  "InternalAppendHistoryNodesRequest \<Rightarrow> int \<Rightarrow> nosqlHistoryTreeRow option"
where
  "nosql_append_treeRow request now =
     (if ap_IsNewBranch request then
        Some \<lparr>nt_ShardID = ap_ShardID request, nt_TreeID = hb_TreeID (ap_BranchInfo request),
              nt_BranchID = hb_BranchID (ap_BranchInfo request),
              nt_Ancestors = Ancestors (ap_BranchInfo request),
              nt_CreateTimestamp = now, nt_Info = ap_Info request\<rparr>
      else None)"

definition nosql_append_nodeRow :: "InternalAppendHistoryNodesRequest \<Rightarrow> HistoryNodeRow" where
  "nosql_append_nodeRow request =
     \<lparr>hn_ShardID = ap_ShardID request, hn_TreeID = hb_TreeID (ap_BranchInfo request),
      hn_BranchID = hb_BranchID (ap_BranchInfo request), hn_NodeID = ap_NodeID request,
      hn_TxnID = ap_TransactionID request, hn_Data = Data (ap_Events request),
      hn_DataEncoding = Encoding (ap_Events request)\<rparr>"

definition nosql_AppendHistoryNodes ::
  "('d, 's) nosqlHistoryStore \<Rightarrow> int \<Rightarrow> InternalAppendHistoryNodesRequest \<Rightarrow> 's \<Rightarrow> error option \<times> 's"
where
  "nosql_AppendHistoryNodes h now request s =
     (let branchInfo = ap_BranchInfo request;
          beginNodeID = GetBeginNodeID branchInfo
      in
      if ap_NodeID request < beginNodeID then
        (Some (InvalidPersistenceRequestError (Msg ''cannot append to ancestors' nodes'')), s)
      else
        (case GetStoreShardByHistoryShard h (ap_ShardID request) of
           Inl err \<Rightarrow> (Some err, s)
         | Inr storeShard \<Rightarrow>
            (case InsertIntoHistoryTreeAndNode h storeShard (nosql_append_treeRow request now)
                    (Some (nosql_append_nodeRow request)) s of
               Inl err \<Rightarrow> (Some (nosql_convertCommonErrors h storeShard ''AppendHistoryNodes'' err), s)
             | Inr s1 \<Rightarrow> (None, s1))))"

subsection \<open>ReadHistoryBranch\<close>

text \<open>The loop over the rows. Unlike the SQL store's, it skips a row with a transaction id
  below \<open>lastTxnID\<close> with a bare \<^verbatim>\<open>continue\<close>.\<close>

fun nosql_walkRows ::
  "HistoryNodeRow list \<Rightarrow> int64 \<Rightarrow> int64 \<Rightarrow> DataBlob list \<Rightarrow> error + (DataBlob list \<times> int64 \<times> int64)"
where
  "nosql_walkRows [] lastNodeID lastTxnID history = Inr (history, lastNodeID, lastTxnID)"
| "nosql_walkRows (row # rows) lastNodeID lastTxnID history =
     (if hn_TxnID row < lastTxnID then nosql_walkRows rows lastNodeID lastTxnID history
      else if hn_NodeID row < lastNodeID then
        Inl (InternalDataInconsistencyError (Msg ''corrupted data, nodeID cannot decrease''))
      else if hn_NodeID row = lastNodeID then
        Inl (InternalDataInconsistencyError
               (Msg ''corrupted data, same nodeID must have smaller txnID''))
      else
        nosql_walkRows rows (hn_NodeID row) (hn_TxnID row)
          (history @ [\<lparr>Data = hn_Data row, Encoding = hn_DataEncoding row\<rparr>]))"

definition nosql_readFilter :: "InternalReadHistoryBranchRequest \<Rightarrow> nosqlHistoryNodeFilter" where
  "nosql_readFilter request =
     \<lparr>nnf_ShardID = rd_ShardID request, nnf_TreeID = rd_TreeID request,
      nnf_BranchID = rd_BranchID request, nnf_MinNodeID = rd_MinNodeID request,
      nnf_MaxNodeID = rd_MaxNodeID request, nnf_NextPageToken = rd_NextPageToken request,
      nnf_PageSize = rd_PageSize request\<rparr>"

definition nosql_ReadHistoryBranch ::
  "('d, 's) nosqlHistoryStore \<Rightarrow> InternalReadHistoryBranchRequest \<Rightarrow> 's
     \<Rightarrow> error + InternalReadHistoryBranchResponse"
where
  "nosql_ReadHistoryBranch h request s =
     (case GetStoreShardByHistoryShard h (rd_ShardID request) of
        Inl err \<Rightarrow> Inl err
      | Inr storeShard \<Rightarrow>
         (case nosql_SelectFromHistoryNode h storeShard (nosql_readFilter request) s of
            Inl err \<Rightarrow> Inl (nosql_convertCommonErrors h storeShard ''SelectFromHistoryNode'' err)
          | Inr (rows, pagingToken) \<Rightarrow>
              if rd_PageSize request < 0 then Inl (Panic ''makeslice: cap out of range'')
              else
                (case nosql_walkRows rows (rd_LastNodeID request) (rd_LastTransactionID request) [] of
                   Inl err \<Rightarrow> Inl err
                 | Inr (history, lastNodeID, lastTxnID) \<Rightarrow>
                     Inr \<lparr>History = history, NextPageToken = pagingToken,
                          LastNodeID = lastNodeID, LastTransactionID = lastTxnID\<rparr>)))"

subsection \<open>ForkHistoryBranch\<close>

text \<open>The new ancestors are derived by the same statements as in the SQL store (lines 778
  to 805 of the NoSQL store are lines 310 to 337 of the SQL store), so \<open>forkNewAncestors\<close>
  and \<open>fork_resp\<close> serve both. The tree row gets a copy of each new ancestor with its
  \<^verbatim>\<open>BranchID\<close> and \<^verbatim>\<open>EndNodeID\<close> only; \<^verbatim>\<open>BeginNodeID\<close> keeps Go's zero value.\<close>

definition nosql_fork_treeRow :: "InternalForkHistoryBranchRequest \<Rightarrow> int \<Rightarrow> nosqlHistoryTreeRow" where
  "nosql_fork_treeRow request now =
     \<lparr>nt_ShardID = fk_ShardID request, nt_TreeID = hb_TreeID (fk_ForkBranchInfo request),
      nt_BranchID = fk_NewBranchID request,
      nt_Ancestors =
        map (\<lambda>an. \<lparr>BranchID = BranchID an, BeginNodeID = 0, EndNodeID = EndNodeID an\<rparr>)
          (forkNewAncestors (fk_ForkBranchInfo request) (fk_ForkNodeID request)),
      nt_CreateTimestamp = now, nt_Info = fk_Info request\<rparr>"

definition nosql_ForkHistoryBranch ::
  "('d, 's) nosqlHistoryStore \<Rightarrow> int \<Rightarrow> InternalForkHistoryBranchRequest \<Rightarrow> 's
     \<Rightarrow> (error + InternalForkHistoryBranchResponse) \<times> 's"
where
  "nosql_ForkHistoryBranch h now request s =
     (case GetStoreShardByHistoryShard h (fk_ShardID request) of
        Inl err \<Rightarrow> (Inl err, s)
      | Inr storeShard \<Rightarrow>
         (case InsertIntoHistoryTreeAndNode h storeShard (Some (nosql_fork_treeRow request now))
                 None s of
            Inl err \<Rightarrow> (Inl (nosql_convertCommonErrors h storeShard ''ForkHistoryBranch'' err), s)
          | Inr s1 \<Rightarrow> (Inr (fork_resp request), s1)))"

subsection \<open>GetHistoryTree\<close>

definition nosql_GetHistoryTree ::
  "('d, 's) nosqlHistoryStore \<Rightarrow> InternalGetHistoryTreeRequest \<Rightarrow> 's
     \<Rightarrow> error + InternalGetHistoryTreeResponse"
where
  "nosql_GetHistoryTree h request s =
     (case gt_ShardID request of
        None \<Rightarrow> Inl (Panic ''nil pointer dereference'')
      | Some shardID \<Rightarrow>
         (case GetStoreShardByHistoryShard h shardID of
            Inl err \<Rightarrow> Inl err
          | Inr storeShard \<Rightarrow>
             (case nosql_SelectFromHistoryTree h storeShard
                     \<lparr>ntf_ShardID = shardID, ntf_TreeID = gt_TreeID request, ntf_BranchID = None\<rparr> s of
                Inl err \<Rightarrow> Inl (nosql_convertCommonErrors h storeShard ''SelectFromHistoryTree'' err)
              | Inr dbBranches \<Rightarrow>
                  Inr \<lparr>Branches =
                         map (\<lambda>dbBr. \<lparr>hb_TreeID = gt_TreeID request, hb_BranchID = nt_BranchID dbBr,
                                       Ancestors = nt_Ancestors dbBr\<rparr>) dbBranches\<rparr>)))"

subsection \<open>DeleteHistoryBranch\<close>

text \<open>The loop that collects the node filters, over the ranges in the order the code visits
  them (the last range of \<^verbatim>\<open>brsToDelete\<close> first).\<close>

fun nosql_nodeFilters ::
  "int \<Rightarrow> string \<Rightarrow> (string \<rightharpoonup> int64) \<Rightarrow> HistoryBranchRange list \<Rightarrow> nosqlHistoryNodeFilter list"
where
  "nosql_nodeFilters shardID treeID validBRsMaxEndNode [] = []"
| "nosql_nodeFilters shardID treeID validBRsMaxEndNode (br # brs) =
     (case validBRsMaxEndNode (BranchID br) of
        Some maxReferredEndNodeID \<Rightarrow>
          [\<lparr>nnf_ShardID = shardID, nnf_TreeID = treeID, nnf_BranchID = BranchID br,
            nnf_MinNodeID = maxReferredEndNodeID, nnf_MaxNodeID = 0, nnf_NextPageToken = [],
            nnf_PageSize = 0\<rparr>]
      | None \<Rightarrow>
          \<lparr>nnf_ShardID = shardID, nnf_TreeID = treeID, nnf_BranchID = BranchID br,
           nnf_MinNodeID = BeginNodeID br, nnf_MaxNodeID = 0, nnf_NextPageToken = [],
           nnf_PageSize = 0\<rparr> # nosql_nodeFilters shardID treeID validBRsMaxEndNode brs)"

definition nosql_DeleteHistoryBranch ::
  "('d, 's) nosqlHistoryStore \<Rightarrow> InternalDeleteHistoryBranchRequest \<Rightarrow> 's \<Rightarrow> error option \<times> 's"
where
  "nosql_DeleteHistoryBranch h request s =
     (let branch = dl_BranchInfo request;
          treeID = hb_TreeID branch;
          beginNodeID = GetBeginNodeID branch;
          brsToDelete = Ancestors branch @
                          [\<lparr>BranchID = hb_BranchID branch, BeginNodeID = beginNodeID,
                            EndNodeID = 0\<rparr>]
      in
      case nosql_GetHistoryTree h \<lparr>gt_TreeID = treeID, gt_ShardID = Some (dl_ShardID request)\<rparr> s of
        Inl err \<Rightarrow> (Some err, s)
      | Inr rsp \<Rightarrow>
         (let treeFilter = \<lparr>ntf_ShardID = dl_ShardID request, ntf_TreeID = treeID,
                            ntf_BranchID = Some (hb_BranchID branch)\<rparr>;
              validBRsMaxEndNode = GetBranchesMaxReferredNodeIDs (Branches rsp);
              nodeFilters = nosql_nodeFilters (dl_ShardID request) treeID validBRsMaxEndNode
                              (rev brsToDelete)
          in
          case GetStoreShardByHistoryShard h (dl_ShardID request) of
            Inl err \<Rightarrow> (Some err, s)
          | Inr storeShard \<Rightarrow>
             (case DeleteFromHistoryTreeAndNode h storeShard treeFilter nodeFilters s of
                Inl err \<Rightarrow>
                  (Some (nosql_convertCommonErrors h storeShard ''DeleteHistoryBranch'' err), s)
              | Inr s1 \<Rightarrow> (None, s1))))"

subsection \<open>GetAllHistoryTreeBranches\<close>

definition nosql_GetAllHistoryTreeBranches ::
  "('d, 's) nosqlHistoryStore \<Rightarrow> GetAllHistoryTreeBranchesRequest \<Rightarrow> 's
     \<Rightarrow> error + GetAllHistoryTreeBranchesResponse"
where
  "nosql_GetAllHistoryTreeBranches h request s =
     (if hasShardedHistory h then
        Inl (InternalServiceError
               (Msg ''SelectAllHistoryTrees is not supported on sharded nosql db''))
      else
        (case SelectAllHistoryTrees h (GetDefaultShard h) (ga_NextPageToken request)
                (ga_PageSize request) s of
           Inl err \<Rightarrow>
             Inl (nosql_convertCommonErrors h (GetDefaultShard h) ''SelectAllHistoryTrees'' err)
         | Inr (dbBranches, pagingToken) \<Rightarrow>
             if ga_PageSize request < 0 then Inl (Panic ''makeslice: cap out of range'')
             else
               Inr \<lparr>ga_Branches =
                      map (\<lambda>branch. \<lparr>bd_TreeID = nt_TreeID branch, bd_BranchID = nt_BranchID branch,
                                      bd_ForkTime = nt_CreateTimestamp branch,
                                      bd_Info = nt_Info branch\<rparr>) dbBranches,
                    ga_ResponseToken = pagingToken\<rparr>))"

subsection \<open>A reference NoSQL backend in memory\<close>

text \<open>
  Modelled from the spec: the NoSQL plugin (\<^verbatim>\<open>nosqlplugin.DB\<close>), the sharding policy and the
  NoSQL package's \<^verbatim>\<open>convertCommonErrors\<close> are not among the modelled files. This backend
  has one shard and follows the spec's driver interface: a tree row and a node row are written
  in one step, each replacing a row with its primary key; nodes are selected for one branch
  in \<open>[minNodeId, maxNodeId)\<close>, sorted by node id ascending and then transaction id
  descending, a page at a time, the token being the number of rows already returned; a delete
  removes the tree row and the node rows of each filter's branch from its \<open>minNodeId\<close> on. It
  is used to run the store on concrete databases; no general theorem depends on it.
\<close>

record nmemDB =
  ntree_table :: "nosqlHistoryTreeRow list"
  nnode_table :: "HistoryNodeRow list"

definition nmem_InsertIntoHistoryTreeAndNode ::
  "unit \<Rightarrow> nosqlHistoryTreeRow option \<Rightarrow> HistoryNodeRow option \<Rightarrow> nmemDB \<Rightarrow> error + nmemDB"
where
  "nmem_InsertIntoHistoryTreeAndNode d treeRow nodeRow s =
     Inr \<lparr>ntree_table =
            (case treeRow of
               None \<Rightarrow> ntree_table s
             | Some t \<Rightarrow>
                 filter (\<lambda>r. \<not> (nt_ShardID r = nt_ShardID t \<and> nt_TreeID r = nt_TreeID t \<and>
                                   nt_BranchID r = nt_BranchID t)) (ntree_table s) @ [t]),
          nnode_table =
            (case nodeRow of
               None \<Rightarrow> nnode_table s
             | Some n \<Rightarrow>
                 filter (\<lambda>r. \<not> (hn_ShardID r = hn_ShardID n \<and> hn_TreeID r = hn_TreeID n \<and>
                                   hn_BranchID r = hn_BranchID n \<and> hn_NodeID r = hn_NodeID n \<and>
                                   hn_TxnID r = hn_TxnID n)) (nnode_table s) @ [n])\<rparr>"

definition nmem_page :: "bytes \<Rightarrow> int \<Rightarrow> 'a list \<Rightarrow> 'a list \<times> bytes" where
  "nmem_page token pageSize xs =
     (let offset = (case mem_deserializePageToken token of Some n \<Rightarrow> nat n | None \<Rightarrow> 0);
          rest = drop offset xs
      in (take (nat pageSize) rest,
          if length rest > nat pageSize then mem_serializePageToken (int offset + pageSize)
          else []))"

definition nmem_SelectFromHistoryNode ::
  "unit \<Rightarrow> nosqlHistoryNodeFilter \<Rightarrow> nmemDB \<Rightarrow> error + (HistoryNodeRow list \<times> bytes)"
where
  "nmem_SelectFromHistoryNode d f s =
     Inr (nmem_page (nnf_NextPageToken f) (nnf_PageSize f)
            (sort_key hn_NodeID
               (sort_key (\<lambda>r. - hn_TxnID r)
                  (filter (\<lambda>r. hn_ShardID r = nnf_ShardID f \<and> hn_TreeID r = nnf_TreeID f \<and>
                                hn_BranchID r = nnf_BranchID f \<and> nnf_MinNodeID f \<le> hn_NodeID r \<and>
                                hn_NodeID r < nnf_MaxNodeID f) (nnode_table s)))))"

definition nmem_treeMatches :: "nosqlHistoryTreeFilter \<Rightarrow> nosqlHistoryTreeRow \<Rightarrow> bool" where
  "nmem_treeMatches f r =
     (nt_ShardID r = ntf_ShardID f \<and> nt_TreeID r = ntf_TreeID f \<and>
      (case ntf_BranchID f of None \<Rightarrow> True | Some branchID \<Rightarrow> nt_BranchID r = branchID))"

definition nmem_SelectFromHistoryTree ::
  "unit \<Rightarrow> nosqlHistoryTreeFilter \<Rightarrow> nmemDB \<Rightarrow> error + nosqlHistoryTreeRow list"
where
  "nmem_SelectFromHistoryTree d f s = Inr (filter (nmem_treeMatches f) (ntree_table s))"

definition nmem_nodeDeleted :: "nosqlHistoryNodeFilter \<Rightarrow> HistoryNodeRow \<Rightarrow> bool" where
  "nmem_nodeDeleted f r =
     (hn_ShardID r = nnf_ShardID f \<and> hn_TreeID r = nnf_TreeID f \<and>
      hn_BranchID r = nnf_BranchID f \<and> nnf_MinNodeID f \<le> hn_NodeID r)"

definition nmem_DeleteFromHistoryTreeAndNode ::
  "unit \<Rightarrow> nosqlHistoryTreeFilter \<Rightarrow> nosqlHistoryNodeFilter list \<Rightarrow> nmemDB \<Rightarrow> error + nmemDB"
where
  "nmem_DeleteFromHistoryTreeAndNode d treeFilter nodeFilters s =
     Inr \<lparr>ntree_table = filter (\<lambda>r. \<not> nmem_treeMatches treeFilter r) (ntree_table s),
          nnode_table =
            filter (\<lambda>r. \<not> list_ex (\<lambda>f. nmem_nodeDeleted f r) nodeFilters) (nnode_table s)\<rparr>"

definition nmem_SelectAllHistoryTrees ::
  "unit \<Rightarrow> bytes option \<Rightarrow> int \<Rightarrow> nmemDB \<Rightarrow> error + (nosqlHistoryTreeRow list \<times> bytes)"
where
  "nmem_SelectAllHistoryTrees d token pageSize s =
     Inr (nmem_page (case token of None \<Rightarrow> [] | Some t \<Rightarrow> t) pageSize (ntree_table s))"

definition nmemStore :: "(unit, nmemDB) nosqlHistoryStore" where
  "nmemStore =
     \<lparr>GetStoreShardByHistoryShard = (\<lambda>shardID. Inr ()),
      GetDefaultShard = (),
      hasShardedHistory = False,
      InsertIntoHistoryTreeAndNode = nmem_InsertIntoHistoryTreeAndNode,
      nosql_SelectFromHistoryNode = nmem_SelectFromHistoryNode,
      nosql_SelectFromHistoryTree = nmem_SelectFromHistoryTree,
      DeleteFromHistoryTreeAndNode = nmem_DeleteFromHistoryTreeAndNode,
      SelectAllHistoryTrees = nmem_SelectAllHistoryTrees,
      nosql_convertCommonErrors = (\<lambda>d operation err.
         InternalServiceError (Sprintf (operation @ '' failed. Error: %v'') (ArgError err)))\<rparr>"

definition ex_emptyNDB :: nmemDB where
  "ex_emptyNDB = \<lparr>ntree_table = [], nnode_table = []\<rparr>"

text \<open>Rows sorted as the backends return them: by node id ascending, then by transaction id
  descending.\<close>

definition sortedRows :: "HistoryNodeRow list \<Rightarrow> bool" where
  "sortedRows rows =
     sorted_wrt (\<lambda>a b. hn_NodeID a < hn_NodeID b \<or>
                        (hn_NodeID a = hn_NodeID b \<and> hn_TxnID b \<le> hn_TxnID a)) rows"

text \<open>Two stale writes around the watermark (3, 100) of a reader: node 2 and node 5, both with
  transaction 50.\<close>

definition ex_staleNDB :: nmemDB where
  "ex_staleNDB =
     \<lparr>ntree_table = [], nnode_table = [ex_node ''B1'' 2 50, ex_node ''B1'' 5 50]\<rparr>"

definition ex_nodeDB :: "HistoryNodeRow list \<Rightarrow> HistoryTreeInfo memDB" where
  "ex_nodeDB rows = \<lparr>tree_table = [], node_table = rows\<rparr>"

definition ex_readAt :: "int64 \<Rightarrow> int64 \<Rightarrow> InternalReadHistoryBranchRequest" where
  "ex_readAt lastNodeID lastTxnID =
     \<lparr>rd_TreeID = ''T'', rd_BranchID = ''B1'', rd_MinNodeID = 1, rd_MaxNodeID = 10,
      rd_PageSize = 10, rd_NextPageToken = [], rd_LastNodeID = lastNodeID,
      rd_LastTransactionID = lastTxnID, rd_ShardID = 0\<rparr>"

definition ex_nodeNDB :: "HistoryNodeRow list \<Rightarrow> nmemDB" where
  "ex_nodeNDB rows = \<lparr>ntree_table = [], nnode_table = rows\<rparr>"

definition ex_page :: "HistoryNodeRow list" where
  "ex_page = [ex_node ''B1'' 1 100, ex_node ''B1'' 3 101, ex_node ''B1'' 3 99]"

section \<open>ReadHistoryBranch: the walk over a page\<close>

text \<open>What a successful walk of the SQL store has done: the accepted rows are a subsequence
  of the page with strictly increasing node ids, all above the starting watermark; each
  accepted row has the highest transaction id among the rows of the page with its node id;
  the final node id is the largest of the starting one and those of the page, and the final
  transaction id is that of the last accepted row.\<close>

lemma walkRows_accepted:
  "walkRows rows ln lt h = Inr (h', ln', lt') \<Longrightarrow>
     \<exists>acc. subseq acc rows \<and> h' = h @ map blobOf acc \<and>
       sorted_wrt (<) (map hn_NodeID acc) \<and>
       (\<forall>r\<in>set acc. ln < hn_NodeID r \<and> lt \<le> hn_TxnID r \<and>
          (\<forall>r'\<in>set rows. hn_NodeID r' = hn_NodeID r \<longrightarrow> hn_TxnID r' \<le> hn_TxnID r)) \<and>
       ln \<le> ln' \<and> lt \<le> lt' \<and>
       (\<forall>r\<in>set rows. ln \<le> hn_NodeID r \<and> hn_NodeID r \<le> ln' \<and> (hn_NodeID r = ln \<longrightarrow> hn_TxnID r < lt)) \<and>
       ln' \<in> insert ln (hn_NodeID ` set rows) \<and>
       lt' = (if acc = [] then lt else hn_TxnID (last acc))"
proof (induction rows arbitrary: ln lt h)
  case Nil
  then show ?case by simp
next
  case (Cons row rows)
  show ?case
  proof (cases "hn_TxnID row < lt")
    case stale: True
    show ?thesis
    proof (cases "hn_NodeID row < ln")
      case True
      with stale Cons.prems show ?thesis by simp
    next
      case False
      define ln1 where "ln1 = (if hn_NodeID row > ln then hn_NodeID row else ln)"
      from stale False Cons.prems have w: "walkRows rows ln1 lt h = Inr (h', ln', lt')"
        by (simp add: ln1_def split: if_splits)
      from Cons.IH[OF w] obtain acc where acc:
        "subseq acc rows" "h' = h @ map blobOf acc" "sorted_wrt (<) (map hn_NodeID acc)"
        "\<forall>r\<in>set acc. ln1 < hn_NodeID r \<and> lt \<le> hn_TxnID r \<and>
          (\<forall>r'\<in>set rows. hn_NodeID r' = hn_NodeID r \<longrightarrow> hn_TxnID r' \<le> hn_TxnID r)"
        "ln1 \<le> ln'" "lt \<le> lt'"
        "\<forall>r\<in>set rows. ln1 \<le> hn_NodeID r \<and> hn_NodeID r \<le> ln' \<and> (hn_NodeID r = ln1 \<longrightarrow> hn_TxnID r < lt)"
        "ln' \<in> insert ln1 (hn_NodeID ` set rows)"
        "lt' = (if acc = [] then lt else hn_TxnID (last acc))"
        by blast
      have l1: "ln \<le> ln1" "hn_NodeID row \<le> ln1" using False by (auto simp: ln1_def)
      have "subseq acc (row # rows)" using acc(1) by (rule list_emb_Cons)
      moreover have "\<forall>r\<in>set acc. ln < hn_NodeID r \<and> lt \<le> hn_TxnID r \<and>
          (\<forall>r'\<in>set (row # rows). hn_NodeID r' = hn_NodeID r \<longrightarrow> hn_TxnID r' \<le> hn_TxnID r)"
        using acc(4) l1 by fastforce
      moreover have "\<forall>r\<in>set (row # rows). ln \<le> hn_NodeID r \<and> hn_NodeID r \<le> ln' \<and> (hn_NodeID r = ln \<longrightarrow> hn_TxnID r < lt)"
        using acc(5,7) l1 False stale by (fastforce simp: ln1_def split: if_splits)
      moreover have "ln' \<in> insert ln (hn_NodeID ` set (row # rows))"
        using acc(8) by (auto simp: ln1_def split: if_splits)
      ultimately show ?thesis using acc(2,3,5,6,9) l1 by (intro exI[of _ acc]) auto
    qed
  next
    case fresh: False
    from fresh Cons.prems have gt: "ln < hn_NodeID row"
      by (auto split: if_splits)
    with fresh Cons.prems have w: "walkRows rows (hn_NodeID row) (hn_TxnID row) (h @ [blobOf row]) = Inr (h', ln', lt')"
      by (simp add: blobOf_def)
    from Cons.IH[OF w] obtain acc where acc:
        "subseq acc rows" "h' = (h @ [blobOf row]) @ map blobOf acc" "sorted_wrt (<) (map hn_NodeID acc)"
        "\<forall>r\<in>set acc. hn_NodeID row < hn_NodeID r \<and> hn_TxnID row \<le> hn_TxnID r \<and>
          (\<forall>r'\<in>set rows. hn_NodeID r' = hn_NodeID r \<longrightarrow> hn_TxnID r' \<le> hn_TxnID r)"
        "hn_NodeID row \<le> ln'" "hn_TxnID row \<le> lt'"
        "\<forall>r\<in>set rows. hn_NodeID row \<le> hn_NodeID r \<and> hn_NodeID r \<le> ln' \<and> (hn_NodeID r = hn_NodeID row \<longrightarrow> hn_TxnID r < hn_TxnID row)"
        "ln' \<in> insert (hn_NodeID row) (hn_NodeID ` set rows)"
        "lt' = (if acc = [] then hn_TxnID row else hn_TxnID (last acc))"
      by blast
    have "subseq (row # acc) (row # rows)" using acc(1) by simp
    moreover have "h' = h @ map blobOf (row # acc)" using acc(2) by simp
    moreover have "sorted_wrt (<) (map hn_NodeID (row # acc))" using acc(3,4) by simp
    moreover have "\<forall>r\<in>set (row # acc). ln < hn_NodeID r \<and> lt \<le> hn_TxnID r \<and>
          (\<forall>r'\<in>set (row # rows). hn_NodeID r' = hn_NodeID r \<longrightarrow> hn_TxnID r' \<le> hn_TxnID r)"
      using acc(4,7) gt fresh by fastforce
    moreover have "\<forall>r\<in>set (row # rows). ln \<le> hn_NodeID r \<and> hn_NodeID r \<le> ln' \<and> (hn_NodeID r = ln \<longrightarrow> hn_TxnID r < lt)"
      using acc(5,7) gt by fastforce
    moreover have "ln' \<in> insert ln (hn_NodeID ` set (row # rows))"
      using acc(8) by auto
    moreover have "lt' = (if row # acc = [] then lt else hn_TxnID (last (row # acc)))"
      using acc(9) by simp
    ultimately show ?thesis using acc(5,6) gt fresh
      by (intro exI[of _ "row # acc"]) (simp only:, auto)
  qed
qed

text \<open>The same for the NoSQL store, where the comparison of the transaction ids needs the
  page to be sorted.\<close>

lemma sortedRows_Cons:
  "sortedRows (row # rows) =
     ((\<forall>r\<in>set rows. hn_NodeID row < hn_NodeID r \<or>
          (hn_NodeID row = hn_NodeID r \<and> hn_TxnID r \<le> hn_TxnID row)) \<and> sortedRows rows)"
  by (simp add: sortedRows_def)

lemma nosql_walkRows_accepted:
  "nosql_walkRows rows ln lt h = Inr (h', ln', lt') \<Longrightarrow>
     \<exists>acc. subseq acc rows \<and> h' = h @ map blobOf acc \<and>
       sorted_wrt (<) (map hn_NodeID acc) \<and>
       (\<forall>r\<in>set acc. ln < hn_NodeID r \<and> lt \<le> hn_TxnID r) \<and>
       (sortedRows rows \<longrightarrow>
          (\<forall>r\<in>set acc. \<forall>r'\<in>set rows. hn_NodeID r' = hn_NodeID r \<longrightarrow> hn_TxnID r' \<le> hn_TxnID r)) \<and>
       ln' = (if acc = [] then ln else hn_NodeID (last acc)) \<and>
       lt' = (if acc = [] then lt else hn_TxnID (last acc))"
proof (induction rows arbitrary: ln lt h)
  case Nil
  then show ?case by simp
next
  case (Cons row rows)
  show ?case
  proof (cases "hn_TxnID row < lt")
    case stale: True
    with Cons.prems have w: "nosql_walkRows rows ln lt h = Inr (h', ln', lt')" by simp
    from Cons.IH[OF w] obtain acc where acc:
      "subseq acc rows" "h' = h @ map blobOf acc" "sorted_wrt (<) (map hn_NodeID acc)"
      "\<forall>r\<in>set acc. ln < hn_NodeID r \<and> lt \<le> hn_TxnID r"
      "sortedRows rows \<longrightarrow>
          (\<forall>r\<in>set acc. \<forall>r'\<in>set rows. hn_NodeID r' = hn_NodeID r \<longrightarrow> hn_TxnID r' \<le> hn_TxnID r)"
      "ln' = (if acc = [] then ln else hn_NodeID (last acc))"
      "lt' = (if acc = [] then lt else hn_TxnID (last acc))"
      by blast
    have "subseq acc (row # rows)" using acc(1) by (rule list_emb_Cons)
    moreover have "sortedRows (row # rows) \<longrightarrow>
          (\<forall>r\<in>set acc. \<forall>r'\<in>set (row # rows). hn_NodeID r' = hn_NodeID r \<longrightarrow> hn_TxnID r' \<le> hn_TxnID r)"
      using acc(4,5) stale by (fastforce simp: sortedRows_Cons)
    ultimately show ?thesis using acc(2,3,4,6,7) by (intro exI[of _ acc]) simp
  next
    case fresh: False
    from fresh Cons.prems have gt: "ln < hn_NodeID row"
      by (auto split: if_splits)
    with fresh Cons.prems have w:
      "nosql_walkRows rows (hn_NodeID row) (hn_TxnID row) (h @ [blobOf row]) = Inr (h', ln', lt')"
      by (simp add: blobOf_def)
    from Cons.IH[OF w] obtain acc where acc:
      "subseq acc rows" "h' = (h @ [blobOf row]) @ map blobOf acc"
      "sorted_wrt (<) (map hn_NodeID acc)"
      "\<forall>r\<in>set acc. hn_NodeID row < hn_NodeID r \<and> hn_TxnID row \<le> hn_TxnID r"
      "sortedRows rows \<longrightarrow>
          (\<forall>r\<in>set acc. \<forall>r'\<in>set rows. hn_NodeID r' = hn_NodeID r \<longrightarrow> hn_TxnID r' \<le> hn_TxnID r)"
      "ln' = (if acc = [] then hn_NodeID row else hn_NodeID (last acc))"
      "lt' = (if acc = [] then hn_TxnID row else hn_TxnID (last acc))"
      by blast
    have "subseq (row # acc) (row # rows)" using acc(1) by simp
    moreover have "h' = h @ map blobOf (row # acc)" using acc(2) by simp
    moreover have "sorted_wrt (<) (map hn_NodeID (row # acc))" using acc(3,4) by simp
    moreover have "\<forall>r\<in>set (row # acc). ln < hn_NodeID r \<and> lt \<le> hn_TxnID r"
      using acc(4) gt fresh by fastforce
    moreover have "sortedRows (row # rows) \<longrightarrow>
          (\<forall>r\<in>set (row # acc). \<forall>r'\<in>set (row # rows).
              hn_NodeID r' = hn_NodeID r \<longrightarrow> hn_TxnID r' \<le> hn_TxnID r)"
      using acc(4,5) by (fastforce simp: sortedRows_Cons)
    moreover have "ln' = (if row # acc = [] then ln else hn_NodeID (last (row # acc)))"
      using acc(6) by simp
    moreover have "lt' = (if row # acc = [] then lt else hn_TxnID (last (row # acc)))"
      using acc(7) by simp
    ultimately show ?thesis by (intro exI[of _ "row # acc"]) blast
  qed
qed

text \<open>
  Claim C1, as the code has it. On the SQL store every \<^verbatim>\<open>ReadHistoryBranch\<close> call walks the
  rows of the page with the watermark \<open>(lastNodeID, lastTxnID)\<close>, which starts as the
  request's. A row with a transaction id below \<open>lastTxnID\<close> is stale: the call fails with
  \<open>Corruption ''nodeID cannot decrease''\<close> when its node id is below \<open>lastNodeID\<close>, and
  otherwise the row is skipped and \<open>lastNodeID\<close> advances to its node id when that is
  larger. A row that is not stale fails with \<open>Corruption ''nodeID cannot decrease''\<close> when its
  node id is below \<open>lastNodeID\<close>, with \<open>Corruption ''same nodeID must have smaller txnID''\<close>
  when it is equal, and is otherwise appended to the output and becomes the watermark. At
  the end of the page the output and the watermark are the response's. Hence the history of a
  response is the blobs of a subsequence of the page whose node ids strictly increase (each
  node id occurs at most once, in ascending order), each of these rows has the highest
  transaction id among the rows of the page with its node id, the response's
  \<open>LastNodeID\<close> is the largest of the request's and the page's node ids, and its
  \<open>LastTransactionID\<close> is that of the last accepted row (the request's when none is).

  On the NoSQL store the walk differs for stale rows only: every row with a transaction id
  below \<open>lastTxnID\<close> is skipped, with no check of the node id and with \<open>lastNodeID\<close> left as
  it is. There too the history is the blobs of a subsequence of the page with strictly
  increasing node ids; on a page sorted by node id ascending and transaction id descending
  each of these rows has the highest transaction id of its node id.
\<close>

theorem read_history_branch_walk:
  "walkRows [] lastNodeID lastTxnID history = Inr (history, lastNodeID, lastTxnID)
   \<and> walkRows (row # rows) lastNodeID lastTxnID history =
     (if hn_TxnID row < lastTxnID then
        (if hn_NodeID row < lastNodeID then Inl (Corruption ''nodeID cannot decrease'')
         else walkRows rows (max lastNodeID (hn_NodeID row)) lastTxnID history)
      else if hn_NodeID row < lastNodeID then Inl (Corruption ''nodeID cannot decrease'')
      else if hn_NodeID row = lastNodeID then
        Inl (Corruption ''same nodeID must have smaller txnID'')
      else walkRows rows (hn_NodeID row) (hn_TxnID row) (history @ [blobOf row]))
   \<and> (readFilter m request = Inr nodeFilter \<and>
        SelectFromHistoryNode m nodeFilter s = Inr page \<and> page \<noteq> [] \<and>
        0 \<le> rd_PageSize request \<longrightarrow>
        ReadHistoryBranch m request s =
          (case walkRows page (rd_LastNodeID request) (rd_LastTransactionID request) [] of
             Inl err \<Rightarrow> Inl err
           | Inr (h, n, t) \<Rightarrow>
               Inr \<lparr>History = h,
                    NextPageToken = (if int (length page) \<ge> rd_PageSize request
                                     then serializePageToken m n else []),
                    LastNodeID = n, LastTransactionID = t\<rparr>))
   \<and> (readFilter m request = Inr nodeFilter \<and>
        SelectFromHistoryNode m nodeFilter s = Inr page \<and> page \<noteq> [] \<and>
        ReadHistoryBranch m request s = Inr resp \<longrightarrow>
        (\<exists>accepted. subseq accepted page \<and> History resp = map blobOf accepted \<and>
           sorted_wrt (<) (map hn_NodeID accepted) \<and> distinct (map hn_NodeID accepted) \<and>
           (\<forall>r\<in>set accepted. rd_LastNodeID request < hn_NodeID r \<and>
              (\<forall>r'\<in>set page. hn_NodeID r' = hn_NodeID r \<longrightarrow> hn_TxnID r' \<le> hn_TxnID r)) \<and>
           LastNodeID resp \<in> insert (rd_LastNodeID request) (hn_NodeID ` set page) \<and>
           rd_LastNodeID request \<le> LastNodeID resp \<and>
           (\<forall>r\<in>set page. hn_NodeID r \<le> LastNodeID resp) \<and>
           LastTransactionID resp =
             (if accepted = [] then rd_LastTransactionID request
              else hn_TxnID (last accepted))))
   \<and> nosql_walkRows [] lastNodeID lastTxnID history = Inr (history, lastNodeID, lastTxnID)
   \<and> nosql_walkRows (row # rows) lastNodeID lastTxnID history =
     (if hn_TxnID row < lastTxnID then nosql_walkRows rows lastNodeID lastTxnID history
      else if hn_NodeID row < lastNodeID then Inl (Corruption ''nodeID cannot decrease'')
      else if hn_NodeID row = lastNodeID then
        Inl (Corruption ''same nodeID must have smaller txnID'')
      else nosql_walkRows rows (hn_NodeID row) (hn_TxnID row) (history @ [blobOf row]))
   \<and> (GetStoreShardByHistoryShard h (rd_ShardID request) = Inr storeShard \<and>
        nosql_SelectFromHistoryNode h storeShard (nosql_readFilter request) t = Inr (page, token) \<and>
        0 \<le> rd_PageSize request \<longrightarrow>
        nosql_ReadHistoryBranch h request t =
          (case nosql_walkRows page (rd_LastNodeID request) (rd_LastTransactionID request) [] of
             Inl err \<Rightarrow> Inl err
           | Inr (hist, n, tx) \<Rightarrow>
               Inr \<lparr>History = hist, NextPageToken = token, LastNodeID = n,
                    LastTransactionID = tx\<rparr>))
   \<and> (GetStoreShardByHistoryShard h (rd_ShardID request) = Inr storeShard \<and>
        nosql_SelectFromHistoryNode h storeShard (nosql_readFilter request) t = Inr (page, token) \<and>
        nosql_ReadHistoryBranch h request t = Inr resp \<longrightarrow>
        (\<exists>accepted. subseq accepted page \<and> History resp = map blobOf accepted \<and>
           sorted_wrt (<) (map hn_NodeID accepted) \<and> distinct (map hn_NodeID accepted) \<and>
           (\<forall>r\<in>set accepted. rd_LastNodeID request < hn_NodeID r) \<and>
           (sortedRows page \<longrightarrow>
              (\<forall>r\<in>set accepted. \<forall>r'\<in>set page.
                  hn_NodeID r' = hn_NodeID r \<longrightarrow> hn_TxnID r' \<le> hn_TxnID r)) \<and>
           LastNodeID resp =
             (if accepted = [] then rd_LastNodeID request else hn_NodeID (last accepted)) \<and>
           LastTransactionID resp =
             (if accepted = [] then rd_LastTransactionID request
              else hn_TxnID (last accepted))))"
proof (intro conjI impI)
  show "walkRows [] lastNodeID lastTxnID history = Inr (history, lastNodeID, lastTxnID)"
    by simp
  show "walkRows (row # rows) lastNodeID lastTxnID history =
     (if hn_TxnID row < lastTxnID then
        (if hn_NodeID row < lastNodeID then Inl (Corruption ''nodeID cannot decrease'')
         else walkRows rows (max lastNodeID (hn_NodeID row)) lastTxnID history)
      else if hn_NodeID row < lastNodeID then Inl (Corruption ''nodeID cannot decrease'')
      else if hn_NodeID row = lastNodeID then
        Inl (Corruption ''same nodeID must have smaller txnID'')
      else walkRows rows (hn_NodeID row) (hn_TxnID row) (history @ [blobOf row]))"
    by (simp add: Corruption_def blobOf_def max_def)
  show "nosql_walkRows [] lastNodeID lastTxnID history = Inr (history, lastNodeID, lastTxnID)"
    by simp
  show "nosql_walkRows (row # rows) lastNodeID lastTxnID history =
     (if hn_TxnID row < lastTxnID then nosql_walkRows rows lastNodeID lastTxnID history
      else if hn_NodeID row < lastNodeID then Inl (Corruption ''nodeID cannot decrease'')
      else if hn_NodeID row = lastNodeID then
        Inl (Corruption ''same nodeID must have smaller txnID'')
      else nosql_walkRows rows (hn_NodeID row) (hn_TxnID row) (history @ [blobOf row]))"
    by (simp add: Corruption_def blobOf_def)
next
  assume "readFilter m request = Inr nodeFilter \<and>
        SelectFromHistoryNode m nodeFilter s = Inr page \<and> page \<noteq> [] \<and>
        0 \<le> rd_PageSize request"
  then show "ReadHistoryBranch m request s =
          (case walkRows page (rd_LastNodeID request) (rd_LastTransactionID request) [] of
             Inl err \<Rightarrow> Inl err
           | Inr (h, n, t) \<Rightarrow>
               Inr \<lparr>History = h,
                    NextPageToken = (if int (length page) \<ge> rd_PageSize request
                                     then serializePageToken m n else []),
                    LastNodeID = n, LastTransactionID = t\<rparr>)"
    by (auto simp: ReadHistoryBranch_def)
next
  assume a: "readFilter m request = Inr nodeFilter \<and>
        SelectFromHistoryNode m nodeFilter s = Inr page \<and> page \<noteq> [] \<and>
        ReadHistoryBranch m request s = Inr resp"
  then obtain hist n tx where
    w: "walkRows page (rd_LastNodeID request) (rd_LastTransactionID request) [] = Inr (hist, n, tx)"
    and r: "History resp = hist" "LastNodeID resp = n" "LastTransactionID resp = tx"
    by (auto simp: ReadHistoryBranch_def split: if_splits sum.splits)
  from walkRows_accepted[OF w] obtain accepted where acc:
    "subseq accepted page" "hist = map blobOf accepted"
    "sorted_wrt (<) (map hn_NodeID accepted)"
    "\<forall>r\<in>set accepted. rd_LastNodeID request < hn_NodeID r \<and>
        rd_LastTransactionID request \<le> hn_TxnID r \<and>
        (\<forall>r'\<in>set page. hn_NodeID r' = hn_NodeID r \<longrightarrow> hn_TxnID r' \<le> hn_TxnID r)"
    "rd_LastNodeID request \<le> n"
    "\<forall>r\<in>set page. hn_NodeID r \<le> n"
    "n \<in> insert (rd_LastNodeID request) (hn_NodeID ` set page)"
    "tx = (if accepted = [] then rd_LastTransactionID request else hn_TxnID (last accepted))"
    by auto
  from acc(3) have "distinct (map hn_NodeID accepted)"
    by (simp add: strict_sorted_iff)
  with acc r show "\<exists>accepted. subseq accepted page \<and> History resp = map blobOf accepted \<and>
           sorted_wrt (<) (map hn_NodeID accepted) \<and> distinct (map hn_NodeID accepted) \<and>
           (\<forall>r\<in>set accepted. rd_LastNodeID request < hn_NodeID r \<and>
              (\<forall>r'\<in>set page. hn_NodeID r' = hn_NodeID r \<longrightarrow> hn_TxnID r' \<le> hn_TxnID r)) \<and>
           LastNodeID resp \<in> insert (rd_LastNodeID request) (hn_NodeID ` set page) \<and>
           rd_LastNodeID request \<le> LastNodeID resp \<and>
           (\<forall>r\<in>set page. hn_NodeID r \<le> LastNodeID resp) \<and>
           LastTransactionID resp =
             (if accepted = [] then rd_LastTransactionID request
              else hn_TxnID (last accepted))"
    by (intro exI[of _ accepted]) simp
next
  assume "GetStoreShardByHistoryShard h (rd_ShardID request) = Inr storeShard \<and>
        nosql_SelectFromHistoryNode h storeShard (nosql_readFilter request) t = Inr (page, token) \<and>
        0 \<le> rd_PageSize request"
  then show "nosql_ReadHistoryBranch h request t =
          (case nosql_walkRows page (rd_LastNodeID request) (rd_LastTransactionID request) [] of
             Inl err \<Rightarrow> Inl err
           | Inr (hist, n, tx) \<Rightarrow>
               Inr \<lparr>History = hist, NextPageToken = token, LastNodeID = n,
                    LastTransactionID = tx\<rparr>)"
    by (auto simp: nosql_ReadHistoryBranch_def)
next
  assume a: "GetStoreShardByHistoryShard h (rd_ShardID request) = Inr storeShard \<and>
        nosql_SelectFromHistoryNode h storeShard (nosql_readFilter request) t = Inr (page, token) \<and>
        nosql_ReadHistoryBranch h request t = Inr resp"
  then obtain hist n tx where
    w: "nosql_walkRows page (rd_LastNodeID request) (rd_LastTransactionID request) [] =
          Inr (hist, n, tx)"
    and r: "History resp = hist" "LastNodeID resp = n" "LastTransactionID resp = tx"
    by (auto simp: nosql_ReadHistoryBranch_def split: if_splits sum.splits)
  from nosql_walkRows_accepted[OF w] obtain accepted where acc:
    "subseq accepted page" "hist = map blobOf accepted"
    "sorted_wrt (<) (map hn_NodeID accepted)"
    "\<forall>r\<in>set accepted. rd_LastNodeID request < hn_NodeID r \<and>
        rd_LastTransactionID request \<le> hn_TxnID r"
    "sortedRows page \<longrightarrow>
       (\<forall>r\<in>set accepted. \<forall>r'\<in>set page. hn_NodeID r' = hn_NodeID r \<longrightarrow> hn_TxnID r' \<le> hn_TxnID r)"
    "n = (if accepted = [] then rd_LastNodeID request else hn_NodeID (last accepted))"
    "tx = (if accepted = [] then rd_LastTransactionID request else hn_TxnID (last accepted))"
    by auto
  from acc(3) have "distinct (map hn_NodeID accepted)"
    by (simp add: strict_sorted_iff)
  with acc r show "\<exists>accepted. subseq accepted page \<and> History resp = map blobOf accepted \<and>
           sorted_wrt (<) (map hn_NodeID accepted) \<and> distinct (map hn_NodeID accepted) \<and>
           (\<forall>r\<in>set accepted. rd_LastNodeID request < hn_NodeID r) \<and>
           (sortedRows page \<longrightarrow>
              (\<forall>r\<in>set accepted. \<forall>r'\<in>set page.
                  hn_NodeID r' = hn_NodeID r \<longrightarrow> hn_TxnID r' \<le> hn_TxnID r)) \<and>
           LastNodeID resp =
             (if accepted = [] then rd_LastNodeID request else hn_NodeID (last accepted)) \<and>
           LastTransactionID resp =
             (if accepted = [] then rd_LastTransactionID request
              else hn_TxnID (last accepted))"
    by (intro exI[of _ accepted]) simp
qed

theorem read_history_branch_walk_witness:
  "ReadHistoryBranch memStore (ex_read 10) ex_staleDB =
     Inr \<lparr>History = [blobOf (ex_node ''B1'' 1 100), blobOf (ex_node ''B1'' 3 101)],
          NextPageToken = [], LastNodeID = 3, LastTransactionID = 101\<rparr>
   \<and> (\<exists>accepted. subseq accepted ex_page \<and>
        [blobOf (ex_node ''B1'' 1 100), blobOf (ex_node ''B1'' 3 101)] = map blobOf accepted \<and>
        sorted_wrt (<) (map hn_NodeID accepted) \<and> distinct (map hn_NodeID accepted) \<and>
        101 = (if accepted = [] then 0 else hn_TxnID (last accepted)))
   \<and> nosql_ReadHistoryBranch nmemStore (ex_read 10) (ex_nodeNDB ex_page) =
     Inr \<lparr>History = [blobOf (ex_node ''B1'' 1 100), blobOf (ex_node ''B1'' 3 101)],
          NextPageToken = [], LastNodeID = 3, LastTransactionID = 101\<rparr>"
proof -
  have f: "readFilter memStore (ex_read 10) = Inr (ex_readFilter 10)"
    by code_simp
  have p: "SelectFromHistoryNode memStore (ex_readFilter 10) ex_staleDB = Inr ex_page"
    by code_simp
  have ne: "ex_page \<noteq> []" "0 \<le> rd_PageSize (ex_read 10)"
    by (simp_all add: ex_page_def ex_read_def)
  have w: "walkRows ex_page (rd_LastNodeID (ex_read 10)) (rd_LastTransactionID (ex_read 10)) [] =
             Inr ([blobOf (ex_node ''B1'' 1 100), blobOf (ex_node ''B1'' 3 101)], 3, 101)"
    by code_simp
  have l: "\<not> rd_PageSize (ex_read 10) \<le> int (length ex_page)"
    "rd_LastTransactionID (ex_read 10) = 0"
    by (simp_all add: ex_page_def ex_read_def)
  note inst = read_history_branch_walk
    [of 0 0 "[]" "ex_node ''B1'' 1 100" "[]" memStore "ex_read 10" "ex_readFilter 10" ex_staleDB
        ex_page
        "\<lparr>History = [blobOf (ex_node ''B1'' 1 100), blobOf (ex_node ''B1'' 3 101)],
          NextPageToken = [], LastNodeID = 3, LastTransactionID = 101\<rparr>"
        nmemStore "()" "ex_nodeNDB ex_page" "[]"]
  from inst f p ne w l have r: "ReadHistoryBranch memStore (ex_read 10) ex_staleDB =
     Inr \<lparr>History = [blobOf (ex_node ''B1'' 1 100), blobOf (ex_node ''B1'' 3 101)],
          NextPageToken = [], LastNodeID = 3, LastTransactionID = 101\<rparr>"
    by simp
  have g: "GetStoreShardByHistoryShard nmemStore (rd_ShardID (ex_read 10)) = Inr ()"
    by (simp add: nmemStore_def)
  have np: "nosql_SelectFromHistoryNode nmemStore () (nosql_readFilter (ex_read 10))
              (ex_nodeNDB ex_page) = Inr (ex_page, [])"
    by code_simp
  have nw: "nosql_walkRows ex_page (rd_LastNodeID (ex_read 10))
              (rd_LastTransactionID (ex_read 10)) [] =
             Inr ([blobOf (ex_node ''B1'' 1 100), blobOf (ex_node ''B1'' 3 101)], 3, 101)"
    by code_simp
  from inst g np ne nw have nr: "nosql_ReadHistoryBranch nmemStore (ex_read 10) (ex_nodeNDB ex_page) =
     Inr \<lparr>History = [blobOf (ex_node ''B1'' 1 100), blobOf (ex_node ''B1'' 3 101)],
          NextPageToken = [], LastNodeID = 3, LastTransactionID = 101\<rparr>"
    by simp
  from inst f p ne r l have "\<exists>accepted. subseq accepted ex_page \<and>
        [blobOf (ex_node ''B1'' 1 100), blobOf (ex_node ''B1'' 3 101)] = map blobOf accepted \<and>
        sorted_wrt (<) (map hn_NodeID accepted) \<and> distinct (map hn_NodeID accepted) \<and>
        101 = (if accepted = [] then 0 else hn_TxnID (last accepted))"
    by auto
  with r nr show ?thesis by blast
qed

text \<open>The claim as it was stated, for every \<^verbatim>\<open>ReadHistoryBranch\<close> call, fails on the NoSQL
  store: at the watermark (3, 100) the page holds two stale rows, of node 2 and of node 5;
  the read does not fail on the row of node 2, whose node id is below the watermark's, and it
  does not advance \<open>LastNodeID\<close> to 5.\<close>

theorem read_history_branch_walk_counterexample:
  "nosql_SelectFromHistoryNode nmemStore () (nosql_readFilter (ex_readAt 3 100)) ex_staleNDB =
     Inr ([ex_node ''B1'' 2 50, ex_node ''B1'' 5 50], [])
   \<and> hn_TxnID (ex_node ''B1'' 2 50) < rd_LastTransactionID (ex_readAt 3 100)
   \<and> hn_NodeID (ex_node ''B1'' 2 50) < rd_LastNodeID (ex_readAt 3 100)
   \<and> hn_TxnID (ex_node ''B1'' 5 50) < rd_LastTransactionID (ex_readAt 3 100)
   \<and> rd_LastNodeID (ex_readAt 3 100) < hn_NodeID (ex_node ''B1'' 5 50)
   \<and> nosql_ReadHistoryBranch nmemStore (ex_readAt 3 100) ex_staleNDB =
       Inr \<lparr>History = [], NextPageToken = [], LastNodeID = 3, LastTransactionID = 100\<rparr>"
  by code_simp

section \<open>AppendHistoryNodes: the precondition\<close>

text \<open>
  Claim C4. \<open>GetBeginNodeID\<close> is the end node id of the last ancestor, or 1 for a branch
  without ancestors. On both stores a request whose node id is below it fails with
  \<open>InvalidRequest ''cannot append to ancestors' nodes''\<close> and leaves the database as it
  was. A request whose node id is at least \<open>GetBeginNodeID\<close> passes the check: it goes on to
  the backend (on the SQL store an append to an existing branch whose insert succeeds, on
  the NoSQL store any append whose insert succeeds, returns no error and the state after
  the insert), and it is never answered with an invalid-request error, provided the helpers
  that are not the stores' code (the error conversion, the parser, the shard lookup) produce
  none.
\<close>

theorem append_precondition:
  "GetBeginNodeID branch =
     (if Ancestors branch = [] then 1 else EndNodeID (last (Ancestors branch)))
   \<and> (ap_NodeID request < GetBeginNodeID (ap_BranchInfo request) \<longrightarrow>
        AppendHistoryNodes m now request s =
          (Some (InvalidRequest ''cannot append to ancestors' nodes''), s))
   \<and> (GetBeginNodeID (ap_BranchInfo request) \<le> ap_NodeID request \<and>
        \<not> ap_IsNewBranch request \<and>
        MustParseUUID m (hb_TreeID (ap_BranchInfo request)) = Some treeUUID \<and>
        MustParseUUID m (hb_BranchID (ap_BranchInfo request)) = Some branchUUID \<and>
        InsertIntoHistoryNode m (append_nodeRow request treeUUID branchUUID) s = Inr (result, s1) \<longrightarrow>
        AppendHistoryNodes m now request s = (None, s1))
   \<and> (GetBeginNodeID (ap_BranchInfo request) \<le> ap_NodeID request \<and>
        (\<forall>operation message err reason.
           convertCommonErrors m operation message err \<noteq> InvalidPersistenceRequestError reason) \<and>
        (\<forall>treeInfo err reason.
           HistoryTreeInfoToBlob m treeInfo = Inl err \<longrightarrow> err \<noteq> InvalidPersistenceRequestError reason) \<longrightarrow>
        (\<forall>reason. fst (AppendHistoryNodes m now request s) \<noteq>
                  Some (InvalidPersistenceRequestError reason)))
   \<and> (ap_NodeID request < GetBeginNodeID (ap_BranchInfo request) \<longrightarrow>
        nosql_AppendHistoryNodes h now request t =
          (Some (InvalidRequest ''cannot append to ancestors' nodes''), t))
   \<and> (GetBeginNodeID (ap_BranchInfo request) \<le> ap_NodeID request \<and>
        GetStoreShardByHistoryShard h (ap_ShardID request) = Inr storeShard \<and>
        InsertIntoHistoryTreeAndNode h storeShard (nosql_append_treeRow request now)
          (Some (nosql_append_nodeRow request)) t = Inr t1 \<longrightarrow>
        nosql_AppendHistoryNodes h now request t = (None, t1))
   \<and> (GetBeginNodeID (ap_BranchInfo request) \<le> ap_NodeID request \<and>
        (\<forall>shard operation err reason.
           nosql_convertCommonErrors h shard operation err \<noteq> InvalidPersistenceRequestError reason) \<and>
        (\<forall>shardID err reason.
           GetStoreShardByHistoryShard h shardID = Inl err \<longrightarrow>
           err \<noteq> InvalidPersistenceRequestError reason) \<longrightarrow>
        (\<forall>reason. fst (nosql_AppendHistoryNodes h now request t) \<noteq>
                  Some (InvalidPersistenceRequestError reason)))"
proof (intro conjI impI allI)
  show "GetBeginNodeID branch =
     (if Ancestors branch = [] then 1 else EndNodeID (last (Ancestors branch)))"
    by (simp add: GetBeginNodeID_def last_conv_nth)
next
  assume "ap_NodeID request < GetBeginNodeID (ap_BranchInfo request)"
  then show "AppendHistoryNodes m now request s =
          (Some (InvalidRequest ''cannot append to ancestors' nodes''), s)"
    by (simp add: AppendHistoryNodes_def InvalidRequest_def)
next
  assume "GetBeginNodeID (ap_BranchInfo request) \<le> ap_NodeID request \<and>
        \<not> ap_IsNewBranch request \<and>
        MustParseUUID m (hb_TreeID (ap_BranchInfo request)) = Some treeUUID \<and>
        MustParseUUID m (hb_BranchID (ap_BranchInfo request)) = Some branchUUID \<and>
        InsertIntoHistoryNode m (append_nodeRow request treeUUID branchUUID) s = Inr (result, s1)"
  then show "AppendHistoryNodes m now request s = (None, s1)"
    by (auto simp: AppendHistoryNodes_def Let_def)
next
  fix reason
  assume a: "GetBeginNodeID (ap_BranchInfo request) \<le> ap_NodeID request \<and>
        (\<forall>operation message err reason.
           convertCommonErrors m operation message err \<noteq> InvalidPersistenceRequestError reason) \<and>
        (\<forall>treeInfo err reason.
           HistoryTreeInfoToBlob m treeInfo = Inl err \<longrightarrow> err \<noteq> InvalidPersistenceRequestError reason)"
  then have ge: "\<not> ap_NodeID request < GetBeginNodeID (ap_BranchInfo request)"
    and conv: "\<And>operation message err reason.
           convertCommonErrors m operation message err \<noteq> InvalidPersistenceRequestError reason"
    and parse: "\<And>treeInfo err reason.
           HistoryTreeInfoToBlob m treeInfo = Inl err \<Longrightarrow> err \<noteq> InvalidPersistenceRequestError reason"
    by auto
  have tx: "fst (txExecute m operation f s) \<noteq> Some (InvalidPersistenceRequestError reason)"
    for operation f
    using conv by (auto simp: txExecute_def split: prod.splits sum.splits error.splits)
  show "fst (AppendHistoryNodes m now request s) \<noteq> Some (InvalidPersistenceRequestError reason)"
    using ge conv parse tx
    by (auto simp: AppendHistoryNodes_def Let_def split: option.splits sum.splits prod.splits)
next
  assume "ap_NodeID request < GetBeginNodeID (ap_BranchInfo request)"
  then show "nosql_AppendHistoryNodes h now request t =
          (Some (InvalidRequest ''cannot append to ancestors' nodes''), t)"
    by (simp add: nosql_AppendHistoryNodes_def InvalidRequest_def)
next
  assume "GetBeginNodeID (ap_BranchInfo request) \<le> ap_NodeID request \<and>
        GetStoreShardByHistoryShard h (ap_ShardID request) = Inr storeShard \<and>
        InsertIntoHistoryTreeAndNode h storeShard (nosql_append_treeRow request now)
          (Some (nosql_append_nodeRow request)) t = Inr t1"
  then show "nosql_AppendHistoryNodes h now request t = (None, t1)"
    by (auto simp: nosql_AppendHistoryNodes_def Let_def)
next
  fix reason
  assume a: "GetBeginNodeID (ap_BranchInfo request) \<le> ap_NodeID request \<and>
        (\<forall>shard operation err reason.
           nosql_convertCommonErrors h shard operation err \<noteq> InvalidPersistenceRequestError reason) \<and>
        (\<forall>shardID err reason.
           GetStoreShardByHistoryShard h shardID = Inl err \<longrightarrow>
           err \<noteq> InvalidPersistenceRequestError reason)"
  then show "fst (nosql_AppendHistoryNodes h now request t) \<noteq>
                  Some (InvalidPersistenceRequestError reason)"
    by (auto simp: nosql_AppendHistoryNodes_def Let_def split: sum.splits)
qed

theorem append_precondition_witness:
  "AppendHistoryNodes memStore 0 (ex_append False ex_B2 5 100) ex_emptyDB =
     (Some (InvalidRequest ''cannot append to ancestors' nodes''), ex_emptyDB)
   \<and> AppendHistoryNodes memStore 0 (ex_append False ex_B2 6 100) ex_emptyDB =
       (None, \<lparr>tree_table = [], node_table = [ex_node ''B2'' 6 100]\<rparr>)
   \<and> (\<forall>reason. fst (AppendHistoryNodes memStore 0 (ex_append False ex_B2 6 100) ex_emptyDB) \<noteq>
                Some (InvalidPersistenceRequestError reason))
   \<and> nosql_AppendHistoryNodes nmemStore 0 (ex_append False ex_B2 5 100) ex_emptyNDB =
     (Some (InvalidRequest ''cannot append to ancestors' nodes''), ex_emptyNDB)
   \<and> nosql_AppendHistoryNodes nmemStore 0 (ex_append False ex_B2 6 100) ex_emptyNDB =
       (None, \<lparr>ntree_table = [], nnode_table = [ex_node ''B2'' 6 100]\<rparr>)
   \<and> (\<forall>reason. fst (nosql_AppendHistoryNodes nmemStore 0 (ex_append False ex_B2 6 100) ex_emptyNDB) \<noteq>
                Some (InvalidPersistenceRequestError reason))"
proof -
  have b: "GetBeginNodeID (ap_BranchInfo (ex_append False ex_B2 5 100)) = 6"
          "GetBeginNodeID (ap_BranchInfo (ex_append False ex_B2 6 100)) = 6"
    by code_simp+
  have n: "ap_NodeID (ex_append False ex_B2 5 100) = 5" "ap_NodeID (ex_append False ex_B2 6 100) = 6"
          "\<not> ap_IsNewBranch (ex_append False ex_B2 6 100)"
    by (simp_all add: ex_append_def)
  have u: "MustParseUUID memStore (hb_TreeID (ap_BranchInfo (ex_append False ex_B2 6 100))) = Some ''T''"
          "MustParseUUID memStore (hb_BranchID (ap_BranchInfo (ex_append False ex_B2 6 100))) = Some ''B2''"
    by (simp_all add: ex_append_def ex_B2_def memStore_def)
  have i: "InsertIntoHistoryNode memStore (append_nodeRow (ex_append False ex_B2 6 100) ''T'' ''B2'') ex_emptyDB
             = Inr (Inr 1, \<lparr>tree_table = [], node_table = [ex_node ''B2'' 6 100]\<rparr>)"
    by code_simp
  have c: "\<forall>operation message err reason.
           convertCommonErrors memStore operation message err \<noteq> InvalidPersistenceRequestError reason"
          "\<forall>treeInfo err reason.
           HistoryTreeInfoToBlob memStore treeInfo = Inl err \<longrightarrow> err \<noteq> InvalidPersistenceRequestError reason"
    by (simp_all add: memStore_def)
  have g: "GetStoreShardByHistoryShard nmemStore (ap_ShardID (ex_append False ex_B2 6 100)) = Inr ()"
    by (simp add: nmemStore_def)
  have ni: "InsertIntoHistoryTreeAndNode nmemStore () (nosql_append_treeRow (ex_append False ex_B2 6 100) 0)
              (Some (nosql_append_nodeRow (ex_append False ex_B2 6 100))) ex_emptyNDB
             = Inr \<lparr>ntree_table = [], nnode_table = [ex_node ''B2'' 6 100]\<rparr>"
    by code_simp
  have nc: "\<forall>shard operation err reason.
           nosql_convertCommonErrors nmemStore shard operation err \<noteq> InvalidPersistenceRequestError reason"
          "\<forall>shardID err reason.
           GetStoreShardByHistoryShard nmemStore shardID = Inl err \<longrightarrow>
           err \<noteq> InvalidPersistenceRequestError reason"
    by (simp_all add: nmemStore_def)
  note low = append_precondition
    [of ex_B2 "ex_append False ex_B2 5 100" memStore 0 ex_emptyDB "''T''" "''B2''" "Inr 1"
        "\<lparr>tree_table = [], node_table = [ex_node ''B2'' 6 100]\<rparr>" nmemStore ex_emptyNDB "()"
        "\<lparr>ntree_table = [], nnode_table = [ex_node ''B2'' 6 100]\<rparr>"]
  note ok = append_precondition
    [of ex_B2 "ex_append False ex_B2 6 100" memStore 0 ex_emptyDB "''T''" "''B2''" "Inr 1"
        "\<lparr>tree_table = [], node_table = [ex_node ''B2'' 6 100]\<rparr>" nmemStore ex_emptyNDB "()"
        "\<lparr>ntree_table = [], nnode_table = [ex_node ''B2'' 6 100]\<rparr>"]
  from low b n have r1:
    "AppendHistoryNodes memStore 0 (ex_append False ex_B2 5 100) ex_emptyDB =
       (Some (InvalidRequest ''cannot append to ancestors' nodes''), ex_emptyDB)"
    "nosql_AppendHistoryNodes nmemStore 0 (ex_append False ex_B2 5 100) ex_emptyNDB =
       (Some (InvalidRequest ''cannot append to ancestors' nodes''), ex_emptyNDB)"
    by simp_all
  from ok b n u i c have r2:
    "AppendHistoryNodes memStore 0 (ex_append False ex_B2 6 100) ex_emptyDB =
       (None, \<lparr>tree_table = [], node_table = [ex_node ''B2'' 6 100]\<rparr>)"
    "\<forall>reason. fst (AppendHistoryNodes memStore 0 (ex_append False ex_B2 6 100) ex_emptyDB) \<noteq>
                Some (InvalidPersistenceRequestError reason)"
    by simp_all
  from ok b n g ni nc have r3:
    "nosql_AppendHistoryNodes nmemStore 0 (ex_append False ex_B2 6 100) ex_emptyNDB =
       (None, \<lparr>ntree_table = [], nnode_table = [ex_node ''B2'' 6 100]\<rparr>)"
    "\<forall>reason. fst (nosql_AppendHistoryNodes nmemStore 0 (ex_append False ex_B2 6 100) ex_emptyNDB) \<noteq>
                Some (InvalidPersistenceRequestError reason)"
    by simp_all
  from r1 r2 r3 show ?thesis by blast
qed

section \<open>ReadHistoryBranch: pages without rows\<close>

text \<open>
  Claim C10, as the code has it. On the SQL store, when the backend returns no node rows (an
  empty result or \<^verbatim>\<open>sql.ErrNoRows\<close>), the response is the zero response: empty history, no
  next-page token, \<open>LastNodeID = 0\<close> and \<open>LastTransactionID = 0\<close>, whatever watermark the
  request carried. On a page with rows the response carries the watermark the walk ends
  with: its \<open>LastNodeID\<close> is the largest of the request's \<open>LastNodeID\<close> and the node ids
  of the page, and its \<open>LastTransactionID\<close> is not below the request's. On the NoSQL
  store a page without rows gives a response with an empty history, the page token of the
  backend, and the watermark of the request.
\<close>

theorem read_empty_page:
  "(readFilter m request = Inr nodeFilter \<and>
      (SelectFromHistoryNode m nodeFilter s = Inr [] \<or>
       SelectFromHistoryNode m nodeFilter s = Inl ErrNoRows) \<longrightarrow>
      ReadHistoryBranch m request s =
        Inr \<lparr>History = [], NextPageToken = [], LastNodeID = 0, LastTransactionID = 0\<rparr>)
   \<and> (readFilter m request = Inr nodeFilter \<and>
        SelectFromHistoryNode m nodeFilter s = Inr page \<and> page \<noteq> [] \<and>
        ReadHistoryBranch m request s = Inr resp \<longrightarrow>
        walkRows page (rd_LastNodeID request) (rd_LastTransactionID request) [] =
          Inr (History resp, LastNodeID resp, LastTransactionID resp) \<and>
        LastNodeID resp \<in> insert (rd_LastNodeID request) (hn_NodeID ` set page) \<and>
        rd_LastNodeID request \<le> LastNodeID resp \<and>
        (\<forall>r\<in>set page. hn_NodeID r \<le> LastNodeID resp) \<and>
        rd_LastTransactionID request \<le> LastTransactionID resp)
   \<and> (GetStoreShardByHistoryShard h (rd_ShardID request) = Inr storeShard \<and>
        nosql_SelectFromHistoryNode h storeShard (nosql_readFilter request) t = Inr ([], token) \<and>
        0 \<le> rd_PageSize request \<longrightarrow>
        nosql_ReadHistoryBranch h request t =
          Inr \<lparr>History = [], NextPageToken = token, LastNodeID = rd_LastNodeID request,
               LastTransactionID = rd_LastTransactionID request\<rparr>)"
proof (intro conjI impI)
  assume "readFilter m request = Inr nodeFilter \<and>
      (SelectFromHistoryNode m nodeFilter s = Inr [] \<or>
       SelectFromHistoryNode m nodeFilter s = Inl ErrNoRows)"
  then show "ReadHistoryBranch m request s =
        Inr \<lparr>History = [], NextPageToken = [], LastNodeID = 0, LastTransactionID = 0\<rparr>"
    by (auto simp: ReadHistoryBranch_def emptyReadResponse_def)
next
  assume a: "readFilter m request = Inr nodeFilter \<and>
        SelectFromHistoryNode m nodeFilter s = Inr page \<and> page \<noteq> [] \<and>
        ReadHistoryBranch m request s = Inr resp"
  then obtain hist n tx where
    w: "walkRows page (rd_LastNodeID request) (rd_LastTransactionID request) [] = Inr (hist, n, tx)"
    and r: "History resp = hist" "LastNodeID resp = n" "LastTransactionID resp = tx"
    by (auto simp: ReadHistoryBranch_def split: if_splits sum.splits)
  from w r show "walkRows page (rd_LastNodeID request) (rd_LastTransactionID request) [] =
      Inr (History resp, LastNodeID resp, LastTransactionID resp)" by simp
  from walkRows_accepted[OF w] r
  show "LastNodeID resp \<in> insert (rd_LastNodeID request) (hn_NodeID ` set page)"
    and "rd_LastNodeID request \<le> LastNodeID resp"
    and "\<forall>r\<in>set page. hn_NodeID r \<le> LastNodeID resp"
    and "rd_LastTransactionID request \<le> LastTransactionID resp" by auto
next
  assume "GetStoreShardByHistoryShard h (rd_ShardID request) = Inr storeShard \<and>
        nosql_SelectFromHistoryNode h storeShard (nosql_readFilter request) t = Inr ([], token) \<and>
        0 \<le> rd_PageSize request"
  then show "nosql_ReadHistoryBranch h request t =
          Inr \<lparr>History = [], NextPageToken = token, LastNodeID = rd_LastNodeID request,
               LastTransactionID = rd_LastTransactionID request\<rparr>"
    by (auto simp: nosql_ReadHistoryBranch_def)
qed

theorem read_empty_page_witness:
  "ReadHistoryBranch memStore (ex_readAt 3 100) ex_emptyDB =
     Inr \<lparr>History = [], NextPageToken = [], LastNodeID = 0, LastTransactionID = 0\<rparr>
   \<and> LastNodeID \<lparr>History = [blobOf (ex_node ''B1'' 1 100), blobOf (ex_node ''B1'' 3 101)],
                   NextPageToken = [], LastNodeID = 3, LastTransactionID = 101\<rparr>
       \<in> insert (rd_LastNodeID (ex_read 10)) (hn_NodeID ` set ex_page)
   \<and> nosql_ReadHistoryBranch nmemStore (ex_readAt 3 100) ex_emptyNDB =
     Inr \<lparr>History = [], NextPageToken = [], LastNodeID = 3, LastTransactionID = 100\<rparr>"
proof -
  have f: "readFilter memStore (ex_readAt 3 100) = Inr ((ex_readFilter 10)\<lparr>nf_MaxNodeID := Some 10\<rparr>)"
          "readFilter memStore (ex_read 10) = Inr (ex_readFilter 10)"
    by code_simp+
  have p: "SelectFromHistoryNode memStore ((ex_readFilter 10)\<lparr>nf_MaxNodeID := Some 10\<rparr>) ex_emptyDB = Inr []"
          "SelectFromHistoryNode memStore (ex_readFilter 10) ex_staleDB = Inr ex_page"
    by code_simp+
  have r: "ReadHistoryBranch memStore (ex_read 10) ex_staleDB =
     Inr \<lparr>History = [blobOf (ex_node ''B1'' 1 100), blobOf (ex_node ''B1'' 3 101)],
          NextPageToken = [], LastNodeID = 3, LastTransactionID = 101\<rparr>"
    by code_simp
  have ne: "ex_page \<noteq> []" by (simp add: ex_page_def)
  have g: "GetStoreShardByHistoryShard nmemStore (rd_ShardID (ex_readAt 3 100)) = Inr ()"
    by (simp add: nmemStore_def)
  have np: "nosql_SelectFromHistoryNode nmemStore () (nosql_readFilter (ex_readAt 3 100)) ex_emptyNDB =
              Inr ([], [])"
    by code_simp
  have w: "0 \<le> rd_PageSize (ex_readAt 3 100)" "rd_LastNodeID (ex_readAt 3 100) = 3"
    "rd_LastTransactionID (ex_readAt 3 100) = 100"
    by (simp_all add: ex_readAt_def)
  note empty = read_empty_page
         [of memStore "ex_readAt 3 100" "(ex_readFilter 10)\<lparr>nf_MaxNodeID := Some 10\<rparr>" ex_emptyDB
             "[]" _ nmemStore "()" ex_emptyNDB "[]"]
  note full = read_empty_page
         [of memStore "ex_read 10" "ex_readFilter 10" ex_staleDB ex_page
             "\<lparr>History = [blobOf (ex_node ''B1'' 1 100), blobOf (ex_node ''B1'' 3 101)],
              NextPageToken = [], LastNodeID = 3, LastTransactionID = 101\<rparr>"]
  from empty[THEN conjunct1] f p have a:
    "ReadHistoryBranch memStore (ex_readAt 3 100) ex_emptyDB =
       Inr \<lparr>History = [], NextPageToken = [], LastNodeID = 0, LastTransactionID = 0\<rparr>"
    by simp
  from empty[THEN conjunct2, THEN conjunct2] g np w have b:
    "nosql_ReadHistoryBranch nmemStore (ex_readAt 3 100) ex_emptyNDB =
       Inr \<lparr>History = [], NextPageToken = [], LastNodeID = 3, LastTransactionID = 100\<rparr>"
    by simp
  from full[THEN conjunct2, THEN conjunct1] f p r ne have c:
    "LastNodeID \<lparr>History = [blobOf (ex_node ''B1'' 1 100), blobOf (ex_node ''B1'' 3 101)],
                   NextPageToken = [], LastNodeID = 3, LastTransactionID = 101\<rparr>
       \<in> insert (rd_LastNodeID (ex_read 10)) (hn_NodeID ` set ex_page)"
    by blast
  from a b c show ?thesis by blast
qed

text \<open>The claim as it was stated, for every \<^verbatim>\<open>ReadHistoryBranch\<close> request, fails on the NoSQL
  store: with no rows the response echoes the request's watermark (3, 100).\<close>

theorem read_empty_page_counterexample:
  "nosql_SelectFromHistoryNode nmemStore () (nosql_readFilter (ex_readAt 3 100)) ex_emptyNDB =
     Inr ([], [])
   \<and> nosql_ReadHistoryBranch nmemStore (ex_readAt 3 100) ex_emptyNDB =
       Inr \<lparr>History = [], NextPageToken = [], LastNodeID = 3, LastTransactionID = 100\<rparr>
   \<and> LastNodeID \<lparr>History = [], NextPageToken = [], LastNodeID = 3, LastTransactionID = 100\<rparr> \<noteq> 0
   \<and> LastTransactionID \<lparr>History = [], NextPageToken = [], LastNodeID = 3,
                          LastTransactionID = 100\<rparr> \<noteq> 0"
  by code_simp

section \<open>ReadHistoryBranch on the SQL store: page tokens\<close>

text \<open>
  Claim C7, as the code has it. Without a page token the query starts at the request's
  \<open>MinNodeID\<close>; with a token that decodes to \<open>n\<close> it starts at \<open>n + 1\<close> (in 64-bit
  arithmetic, so \<open>n + 1\<close> itself below the largest \<^verbatim>\<open>int64\<close>). A response has a next-page
  token exactly when the backend returned at least one row and at least \<open>PageSize\<close> rows, and
  the token is the serialized final \<open>LastNodeID\<close>; for a page size of at least 1 that is
  exactly when the backend returned at least \<open>PageSize\<close> rows. (The serialized token of a
  node id is taken to be non-empty, as a token of 8 bytes is.)
\<close>

theorem read_paging:
  "(rd_NextPageToken request = [] \<longrightarrow> readMinNodeID m request = Inr (rd_MinNodeID request))
   \<and> (rd_NextPageToken request \<noteq> [] \<and>
        deserializePageToken m (rd_NextPageToken request) = Some n \<longrightarrow>
        readMinNodeID m request = Inr (wrap64 (n + 1)) \<and>
        (- (2 ^ 63) \<le> n \<and> n < 2 ^ 63 - 1 \<longrightarrow> wrap64 (n + 1) = n + 1))
   \<and> (readFilter m request = Inr nodeFilter \<longrightarrow>
        readMinNodeID m request = Inr (nf_MinNodeID nodeFilter))
   \<and> (readFilter m request = Inr nodeFilter \<and>
        SelectFromHistoryNode m nodeFilter s = Inr page \<and>
        ReadHistoryBranch m request s = Inr resp \<and>
        (\<forall>nodeID. serializePageToken m nodeID \<noteq> []) \<longrightarrow>
        ((NextPageToken resp \<noteq> []) = (page \<noteq> [] \<and> rd_PageSize request \<le> int (length page))) \<and>
        (NextPageToken resp \<noteq> [] \<longrightarrow> NextPageToken resp = serializePageToken m (LastNodeID resp)) \<and>
        (1 \<le> rd_PageSize request \<longrightarrow>
           ((NextPageToken resp \<noteq> []) = (rd_PageSize request \<le> int (length page)))))
   \<and> (readFilter m request = Inr nodeFilter \<and>
        SelectFromHistoryNode m nodeFilter s = Inl err \<and>
        ReadHistoryBranch m request s = Inr resp \<longrightarrow> NextPageToken resp = [])"
proof (intro conjI impI)
  show "readMinNodeID m request = Inr (rd_MinNodeID request)" if "rd_NextPageToken request = []"
    using that by (simp add: readMinNodeID_def)
next
  assume a: "rd_NextPageToken request \<noteq> [] \<and>
        deserializePageToken m (rd_NextPageToken request) = Some n"
  then show "readMinNodeID m request = Inr (wrap64 (n + 1))"
    by (simp add: readMinNodeID_def)
  show "wrap64 (n + 1) = n + 1" if "- (2 ^ 63) \<le> n \<and> n < 2 ^ 63 - 1"
  proof -
    from that have "0 \<le> n + 1 + 2 ^ 63" "n + 1 + 2 ^ 63 < (2 ^ 64 :: int)" by simp_all
    then have "(n + 1 + 2 ^ 63) mod 2 ^ 64 = n + 1 + 2 ^ 63" by (rule mod_pos_pos_trivial)
    then show ?thesis by (simp add: wrap64_def)
  qed
next
  assume "readFilter m request = Inr nodeFilter"
  then show "readMinNodeID m request = Inr (nf_MinNodeID nodeFilter)"
    by (auto simp: readFilter_def split: sum.splits option.splits)
next
  assume a: "readFilter m request = Inr nodeFilter \<and>
        SelectFromHistoryNode m nodeFilter s = Inr page \<and>
        ReadHistoryBranch m request s = Inr resp \<and>
        (\<forall>nodeID. serializePageToken m nodeID \<noteq> [])"
  then have tok: "NextPageToken resp =
      (if page \<noteq> [] \<and> rd_PageSize request \<le> int (length page)
       then serializePageToken m (LastNodeID resp) else [])"
    by (auto simp: ReadHistoryBranch_def emptyReadResponse_def split: if_splits sum.splits)
  from a have ne: "serializePageToken m (LastNodeID resp) \<noteq> []" by blast
  show iff: "(NextPageToken resp \<noteq> []) = (page \<noteq> [] \<and> rd_PageSize request \<le> int (length page))"
    using tok ne by auto
  show "NextPageToken resp = serializePageToken m (LastNodeID resp)" if "NextPageToken resp \<noteq> []"
    using tok that by (auto split: if_splits)
  show "(NextPageToken resp \<noteq> []) = (rd_PageSize request \<le> int (length page))"
    if "1 \<le> rd_PageSize request"
    using iff that by auto
next
  assume "readFilter m request = Inr nodeFilter \<and>
        SelectFromHistoryNode m nodeFilter s = Inl err \<and>
        ReadHistoryBranch m request s = Inr resp"
  then show "NextPageToken resp = []"
    by (auto simp: ReadHistoryBranch_def emptyReadResponse_def split: if_splits)
qed

theorem read_paging_witness:
  "readMinNodeID memStore (ex_read 2) = Inr 1
   \<and> readMinNodeID memStore ((ex_read 2)\<lparr>rd_NextPageToken := mem_serializePageToken 3\<rparr>) = Inr 4
   \<and> NextPageToken \<lparr>History = [blobOf (ex_node ''B1'' 1 100), blobOf (ex_node ''B1'' 3 101)],
          NextPageToken = mem_serializePageToken 3, LastNodeID = 3, LastTransactionID = 101\<rparr>
       = serializePageToken memStore 3"
proof -
  have t: "rd_NextPageToken (ex_read 2) = []" "rd_MinNodeID (ex_read 2) = 1"
    "rd_NextPageToken ((ex_read 2)\<lparr>rd_NextPageToken := mem_serializePageToken 3\<rparr>) \<noteq> []"
    "deserializePageToken memStore
       (rd_NextPageToken ((ex_read 2)\<lparr>rd_NextPageToken := mem_serializePageToken 3\<rparr>)) = Some 3"
    "wrap64 (3 + 1) = 4"
    by code_simp+
  have f: "readFilter memStore (ex_read 2) = Inr (ex_readFilter 2)"
    by code_simp
  have p: "SelectFromHistoryNode memStore (ex_readFilter 2) ex_staleDB =
             Inr [ex_node ''B1'' 1 100, ex_node ''B1'' 3 101]"
    by code_simp
  have r: "ReadHistoryBranch memStore (ex_read 2) ex_staleDB =
     Inr \<lparr>History = [blobOf (ex_node ''B1'' 1 100), blobOf (ex_node ''B1'' 3 101)],
          NextPageToken = mem_serializePageToken 3, LastNodeID = 3, LastTransactionID = 101\<rparr>"
    by code_simp
  have s: "\<forall>nodeID. serializePageToken memStore nodeID \<noteq> []"
    by (simp add: memStore_def mem_serializePageToken_def)
  have l: "rd_PageSize (ex_read 2) \<le> int (length [ex_node ''B1'' 1 100, ex_node ''B1'' 3 101])"
    by (simp add: ex_read_def)
  from read_paging[of "ex_read 2" memStore 3 "ex_readFilter 2" ex_staleDB
                      "[ex_node ''B1'' 1 100, ex_node ''B1'' 3 101]"
                      "\<lparr>History = [blobOf (ex_node ''B1'' 1 100), blobOf (ex_node ''B1'' 3 101)],
                        NextPageToken = mem_serializePageToken 3, LastNodeID = 3,
                        LastTransactionID = 101\<rparr>"]
       read_paging[of "(ex_read 2)\<lparr>rd_NextPageToken := mem_serializePageToken 3\<rparr>" memStore 3]
       t f p r s l
  show ?thesis by simp
qed

text \<open>The claim as it was stated fails for a page size of 0: the backend then returns no
  rows, which is at least \<open>PageSize\<close> rows, and the response has no token.\<close>

theorem read_paging_counterexample:
  "SelectFromHistoryNode memStore (ex_readFilter 0) ex_staleDB = Inr []
   \<and> readFilter memStore (ex_read 0) = Inr (ex_readFilter 0)
   \<and> ReadHistoryBranch memStore (ex_read 0) ex_staleDB = Inr emptyReadResponse
   \<and> \<not> ((NextPageToken emptyReadResponse \<noteq> []) =
          (rd_PageSize (ex_read 0) \<le> int (length ([] :: HistoryNodeRow list))))"
  by code_simp

section \<open>ForkHistoryBranch: the new ancestors\<close>

lemma forkWalk_takeWhile:
  "forkWalk brs forkNodeID acc =
     acc @ takeWhile (\<lambda>br. EndNodeID br < forkNodeID) brs @
       (case dropWhile (\<lambda>br. EndNodeID br < forkNodeID) brs of
          [] \<Rightarrow> []
        | br # _ \<Rightarrow> [br\<lparr>EndNodeID := forkNodeID\<rparr>])"
  by (induction brs arbitrary: acc) auto

text \<open>
  Claim C2, as the code has it. On both stores, with \<open>begin = GetBeginNodeID forkB\<close>: when
  \<open>begin \<ge> forkNodeID\<close> the new ancestors are the source's ancestors in order, unchanged
  while their end is below \<open>forkNodeID\<close>, then the first one whose end is at least
  \<open>forkNodeID\<close> with its end replaced by \<open>forkNodeID\<close>, and nothing after it; otherwise
  they are all of the source's ancestors and one more range
  \<open>(source branch, begin, forkNodeID)\<close>. A call that returns a response has inserted exactly
  one tree row, and the response has the tree id of the source, the requested branch id and
  the derived ancestors; no call issues more than this one statement. On the SQL store the
  row carries the blob of the tree info with the derived ancestors, and one row was affected.
  On the NoSQL store the row carries, for each derived ancestor, its branch id and its end
  node id, and 0 for its begin node id. On the reference backends the tree table has grown by
  that row and the node table is as it was.
\<close>

theorem fork_new_ancestors:
  "forkNewAncestors forkB forkNodeID =
     (if forkNodeID \<le> GetBeginNodeID forkB then
        takeWhile (\<lambda>br. EndNodeID br < forkNodeID) (Ancestors forkB) @
        (case dropWhile (\<lambda>br. EndNodeID br < forkNodeID) (Ancestors forkB) of
           [] \<Rightarrow> []
         | br # _ \<Rightarrow> [br\<lparr>EndNodeID := forkNodeID\<rparr>])
      else Ancestors forkB @
           [\<lparr>BranchID = hb_BranchID forkB, BeginNodeID = GetBeginNodeID forkB,
             EndNodeID = forkNodeID\<rparr>])
   \<and> (ForkHistoryBranch m now request s = (Inr resp, s') \<longrightarrow>
        resp = \<lparr>NewBranchInfo =
                  \<lparr>hb_TreeID = hb_TreeID (fk_ForkBranchInfo request),
                   hb_BranchID = fk_NewBranchID request,
                   Ancestors = forkNewAncestors (fk_ForkBranchInfo request) (fk_ForkNodeID request)\<rparr>\<rparr> \<and>
        (\<exists>treeUUID newBranchUUID blobData blobEncoding.
           MustParseUUID m (hb_TreeID (fk_ForkBranchInfo request)) = Some treeUUID \<and>
           MustParseUUID m (fk_NewBranchID request) = Some newBranchUUID \<and>
           HistoryTreeInfoToBlob m
             \<lparr>ti_Ancestors = forkNewAncestors (fk_ForkBranchInfo request) (fk_ForkNodeID request),
              ti_Info = fk_Info request, ti_CreatedTimestamp = now\<rparr> = Inr (blobData, blobEncoding) \<and>
           InsertIntoHistoryTree m
             \<lparr>ht_ShardID = fk_ShardID request, ht_TreeID = treeUUID, ht_BranchID = newBranchUUID,
              ht_Data = blobData, ht_DataEncoding = blobEncoding\<rparr> s = Inr (Inr 1, s')))
   \<and> (snd (ForkHistoryBranch m now request s) = s \<or>
       (\<exists>row result.
          InsertIntoHistoryTree m row s = Inr (result, snd (ForkHistoryBranch m now request s))))
   \<and> (ForkHistoryBranch memStore now request db = (Inr resp, db') \<longrightarrow>
        tree_table db' = tree_table db @
          [\<lparr>ht_ShardID = fk_ShardID request, ht_TreeID = hb_TreeID (fk_ForkBranchInfo request),
            ht_BranchID = fk_NewBranchID request,
            ht_Data = \<lparr>ti_Ancestors =
                         forkNewAncestors (fk_ForkBranchInfo request) (fk_ForkNodeID request),
                       ti_Info = fk_Info request, ti_CreatedTimestamp = now\<rparr>,
            ht_DataEncoding = ''mem''\<rparr>] \<and>
        node_table db' = node_table db)
   \<and> (nosql_ForkHistoryBranch h now request t = (Inr resp, t') \<longrightarrow>
        resp = \<lparr>NewBranchInfo =
                  \<lparr>hb_TreeID = hb_TreeID (fk_ForkBranchInfo request),
                   hb_BranchID = fk_NewBranchID request,
                   Ancestors = forkNewAncestors (fk_ForkBranchInfo request) (fk_ForkNodeID request)\<rparr>\<rparr> \<and>
        (\<exists>storeShard.
           GetStoreShardByHistoryShard h (fk_ShardID request) = Inr storeShard \<and>
           InsertIntoHistoryTreeAndNode h storeShard
             (Some \<lparr>nt_ShardID = fk_ShardID request,
                    nt_TreeID = hb_TreeID (fk_ForkBranchInfo request),
                    nt_BranchID = fk_NewBranchID request,
                    nt_Ancestors =
                      map (\<lambda>an. \<lparr>BranchID = BranchID an, BeginNodeID = 0,
                                    EndNodeID = EndNodeID an\<rparr>)
                        (forkNewAncestors (fk_ForkBranchInfo request) (fk_ForkNodeID request)),
                    nt_CreateTimestamp = now, nt_Info = fk_Info request\<rparr>) None t = Inr t'))
   \<and> (snd (nosql_ForkHistoryBranch h now request t) = t \<or>
       (\<exists>storeShard row.
          InsertIntoHistoryTreeAndNode h storeShard (Some row) None t =
            Inr (snd (nosql_ForkHistoryBranch h now request t))))
   \<and> (nosql_ForkHistoryBranch nmemStore now request ndb = (Inr resp, ndb') \<and>
        \<not> list_ex (\<lambda>r. nt_ShardID r = fk_ShardID request \<and>
                         nt_TreeID r = hb_TreeID (fk_ForkBranchInfo request) \<and>
                         nt_BranchID r = fk_NewBranchID request) (ntree_table ndb) \<longrightarrow>
        ntree_table ndb' = ntree_table ndb @
          [\<lparr>nt_ShardID = fk_ShardID request,
            nt_TreeID = hb_TreeID (fk_ForkBranchInfo request),
            nt_BranchID = fk_NewBranchID request,
            nt_Ancestors =
              map (\<lambda>an. \<lparr>BranchID = BranchID an, BeginNodeID = 0, EndNodeID = EndNodeID an\<rparr>)
                (forkNewAncestors (fk_ForkBranchInfo request) (fk_ForkNodeID request)),
            nt_CreateTimestamp = now, nt_Info = fk_Info request\<rparr>] \<and>
        nnode_table ndb' = nnode_table ndb)"
proof (intro conjI impI)
  show "forkNewAncestors forkB forkNodeID =
     (if forkNodeID \<le> GetBeginNodeID forkB then
        takeWhile (\<lambda>br. EndNodeID br < forkNodeID) (Ancestors forkB) @
        (case dropWhile (\<lambda>br. EndNodeID br < forkNodeID) (Ancestors forkB) of
           [] \<Rightarrow> []
         | br # _ \<Rightarrow> [br\<lparr>EndNodeID := forkNodeID\<rparr>])
      else Ancestors forkB @
           [\<lparr>BranchID = hb_BranchID forkB, BeginNodeID = GetBeginNodeID forkB,
             EndNodeID = forkNodeID\<rparr>])"
    by (simp add: forkNewAncestors_def Let_def forkWalk_takeWhile)
next
  assume a: "ForkHistoryBranch m now request s = (Inr resp, s')"
  then show "resp = \<lparr>NewBranchInfo =
                  \<lparr>hb_TreeID = hb_TreeID (fk_ForkBranchInfo request),
                   hb_BranchID = fk_NewBranchID request,
                   Ancestors = forkNewAncestors (fk_ForkBranchInfo request) (fk_ForkNodeID request)\<rparr>\<rparr>"
    by (auto simp: ForkHistoryBranch_def fork_resp_def
             split: sum.splits option.splits prod.splits if_splits)
  from a show "\<exists>treeUUID newBranchUUID blobData blobEncoding.
           MustParseUUID m (hb_TreeID (fk_ForkBranchInfo request)) = Some treeUUID \<and>
           MustParseUUID m (fk_NewBranchID request) = Some newBranchUUID \<and>
           HistoryTreeInfoToBlob m
             \<lparr>ti_Ancestors = forkNewAncestors (fk_ForkBranchInfo request) (fk_ForkNodeID request),
              ti_Info = fk_Info request, ti_CreatedTimestamp = now\<rparr> = Inr (blobData, blobEncoding) \<and>
           InsertIntoHistoryTree m
             \<lparr>ht_ShardID = fk_ShardID request, ht_TreeID = treeUUID, ht_BranchID = newBranchUUID,
              ht_Data = blobData, ht_DataEncoding = blobEncoding\<rparr> s = Inr (Inr 1, s')"
    by (auto simp: ForkHistoryBranch_def fork_treeInfo_def fork_row_def
             split: sum.splits option.splits prod.splits if_splits)
next
  show "snd (ForkHistoryBranch m now request s) = s \<or>
       (\<exists>row result.
          InsertIntoHistoryTree m row s = Inr (result, snd (ForkHistoryBranch m now request s)))"
    by (auto simp: ForkHistoryBranch_def split: sum.splits option.splits prod.splits)
next
  assume a: "ForkHistoryBranch memStore now request db = (Inr resp, db')"
  then have "db' = db\<lparr>tree_table := tree_table db @
          [\<lparr>ht_ShardID = fk_ShardID request, ht_TreeID = hb_TreeID (fk_ForkBranchInfo request),
            ht_BranchID = fk_NewBranchID request,
            ht_Data = \<lparr>ti_Ancestors =
                         forkNewAncestors (fk_ForkBranchInfo request) (fk_ForkNodeID request),
                       ti_Info = fk_Info request, ti_CreatedTimestamp = now\<rparr>,
            ht_DataEncoding = ''mem''\<rparr>]\<rparr>"
    by (auto simp: ForkHistoryBranch_def fork_treeInfo_def fork_row_def memStore_def
                   mem_InsertIntoHistoryTree_def
             split: sum.splits option.splits prod.splits if_splits)
  then show "tree_table db' = tree_table db @
          [\<lparr>ht_ShardID = fk_ShardID request, ht_TreeID = hb_TreeID (fk_ForkBranchInfo request),
            ht_BranchID = fk_NewBranchID request,
            ht_Data = \<lparr>ti_Ancestors =
                         forkNewAncestors (fk_ForkBranchInfo request) (fk_ForkNodeID request),
                       ti_Info = fk_Info request, ti_CreatedTimestamp = now\<rparr>,
            ht_DataEncoding = ''mem''\<rparr>]"
    and "node_table db' = node_table db" by simp_all
next
  assume a: "nosql_ForkHistoryBranch h now request t = (Inr resp, t')"
  then show "resp = \<lparr>NewBranchInfo =
                  \<lparr>hb_TreeID = hb_TreeID (fk_ForkBranchInfo request),
                   hb_BranchID = fk_NewBranchID request,
                   Ancestors = forkNewAncestors (fk_ForkBranchInfo request) (fk_ForkNodeID request)\<rparr>\<rparr>"
    by (auto simp: nosql_ForkHistoryBranch_def fork_resp_def split: sum.splits)
  from a show "\<exists>storeShard.
           GetStoreShardByHistoryShard h (fk_ShardID request) = Inr storeShard \<and>
           InsertIntoHistoryTreeAndNode h storeShard
             (Some \<lparr>nt_ShardID = fk_ShardID request,
                    nt_TreeID = hb_TreeID (fk_ForkBranchInfo request),
                    nt_BranchID = fk_NewBranchID request,
                    nt_Ancestors =
                      map (\<lambda>an. \<lparr>BranchID = BranchID an, BeginNodeID = 0,
                                    EndNodeID = EndNodeID an\<rparr>)
                        (forkNewAncestors (fk_ForkBranchInfo request) (fk_ForkNodeID request)),
                    nt_CreateTimestamp = now, nt_Info = fk_Info request\<rparr>) None t = Inr t'"
    by (auto simp: nosql_ForkHistoryBranch_def nosql_fork_treeRow_def split: sum.splits)
next
  show "snd (nosql_ForkHistoryBranch h now request t) = t \<or>
       (\<exists>storeShard row.
          InsertIntoHistoryTreeAndNode h storeShard (Some row) None t =
            Inr (snd (nosql_ForkHistoryBranch h now request t)))"
    by (auto simp: nosql_ForkHistoryBranch_def split: sum.splits)
next
  assume a: "nosql_ForkHistoryBranch nmemStore now request ndb = (Inr resp, ndb') \<and>
        \<not> list_ex (\<lambda>r. nt_ShardID r = fk_ShardID request \<and>
                         nt_TreeID r = hb_TreeID (fk_ForkBranchInfo request) \<and>
                         nt_BranchID r = fk_NewBranchID request) (ntree_table ndb)"
  then have keep: "filter (\<lambda>r. \<not> (nt_ShardID r = fk_ShardID request \<and>
                         nt_TreeID r = hb_TreeID (fk_ForkBranchInfo request) \<and>
                         nt_BranchID r = fk_NewBranchID request)) (ntree_table ndb) = ntree_table ndb"
    by (auto simp: list_ex_iff filter_id_conv)
  from a have "ndb' = \<lparr>ntree_table =
          filter (\<lambda>r. \<not> (nt_ShardID r = fk_ShardID request \<and>
                         nt_TreeID r = hb_TreeID (fk_ForkBranchInfo request) \<and>
                         nt_BranchID r = fk_NewBranchID request)) (ntree_table ndb) @
          [nosql_fork_treeRow request now], nnode_table = nnode_table ndb\<rparr>"
    by (auto simp: nosql_ForkHistoryBranch_def nmemStore_def nmem_InsertIntoHistoryTreeAndNode_def
                   nosql_fork_treeRow_def split: sum.splits)
  with keep show "ntree_table ndb' = ntree_table ndb @
          [\<lparr>nt_ShardID = fk_ShardID request,
            nt_TreeID = hb_TreeID (fk_ForkBranchInfo request),
            nt_BranchID = fk_NewBranchID request,
            nt_Ancestors =
              map (\<lambda>an. \<lparr>BranchID = BranchID an, BeginNodeID = 0, EndNodeID = EndNodeID an\<rparr>)
                (forkNewAncestors (fk_ForkBranchInfo request) (fk_ForkNodeID request)),
            nt_CreateTimestamp = now, nt_Info = fk_Info request\<rparr>]"
    and "nnode_table ndb' = nnode_table ndb"
    by (simp_all add: nosql_fork_treeRow_def)
qed

theorem fork_new_ancestors_witness:
  "forkNewAncestors ex_B2 6 = [\<lparr>BranchID = ''B1'', BeginNodeID = 1, EndNodeID = 6\<rparr>]
   \<and> forkNewAncestors ex_B2 8 =
       [\<lparr>BranchID = ''B1'', BeginNodeID = 1, EndNodeID = 6\<rparr>,
        \<lparr>BranchID = ''B2'', BeginNodeID = 6, EndNodeID = 8\<rparr>]
   \<and> tree_table (snd (ForkHistoryBranch memStore 7 (ex_fork 8) ex_emptyDB)) =
       [\<lparr>ht_ShardID = 0, ht_TreeID = ''T'', ht_BranchID = ''B3'',
         ht_Data = \<lparr>ti_Ancestors = [\<lparr>BranchID = ''B1'', BeginNodeID = 1, EndNodeID = 6\<rparr>,
                                     \<lparr>BranchID = ''B2'', BeginNodeID = 6, EndNodeID = 8\<rparr>],
                    ti_Info = ''fork'', ti_CreatedTimestamp = 7\<rparr>,
         ht_DataEncoding = ''mem''\<rparr>]
   \<and> ntree_table (snd (nosql_ForkHistoryBranch nmemStore 7 (ex_fork 8) ex_emptyNDB)) =
       [\<lparr>nt_ShardID = 0, nt_TreeID = ''T'', nt_BranchID = ''B3'',
         nt_Ancestors = [\<lparr>BranchID = ''B1'', BeginNodeID = 0, EndNodeID = 6\<rparr>,
                         \<lparr>BranchID = ''B2'', BeginNodeID = 0, EndNodeID = 8\<rparr>],
         nt_CreateTimestamp = 7, nt_Info = ''fork''\<rparr>]"
proof -
  have b: "GetBeginNodeID ex_B2 = 6" "Ancestors ex_B2 = [\<lparr>BranchID = ''B1'', BeginNodeID = 1, EndNodeID = 6\<rparr>]"
    "hb_BranchID ex_B2 = ''B2''"
    by code_simp+
  have f: "ForkHistoryBranch memStore 7 (ex_fork 8) ex_emptyDB =
     (Inr (fork_resp (ex_fork 8)), snd (ForkHistoryBranch memStore 7 (ex_fork 8) ex_emptyDB))"
    by code_simp
  have nf: "nosql_ForkHistoryBranch nmemStore 7 (ex_fork 8) ex_emptyNDB =
     (Inr (fork_resp (ex_fork 8)), snd (nosql_ForkHistoryBranch nmemStore 7 (ex_fork 8) ex_emptyNDB)) \<and>
        \<not> list_ex (\<lambda>r. nt_ShardID r = fk_ShardID (ex_fork 8) \<and>
                         nt_TreeID r = hb_TreeID (fk_ForkBranchInfo (ex_fork 8)) \<and>
                         nt_BranchID r = fk_NewBranchID (ex_fork 8)) (ntree_table ex_emptyNDB)"
    by code_simp
  have r: "fk_ForkBranchInfo (ex_fork 8) = ex_B2" "fk_ForkNodeID (ex_fork 8) = 8"
    "fk_ShardID (ex_fork 8) = 0" "fk_NewBranchID (ex_fork 8) = ''B3''" "fk_Info (ex_fork 8) = ''fork''"
    "hb_TreeID ex_B2 = ''T''" "tree_table ex_emptyDB = []" "ntree_table ex_emptyNDB = []"
    by (simp_all add: ex_fork_def ex_B2_def ex_emptyDB_def ex_emptyNDB_def)
  from fork_new_ancestors[of ex_B2 6, THEN conjunct1] have a6:
    "forkNewAncestors ex_B2 6 = [\<lparr>BranchID = ''B1'', BeginNodeID = 1, EndNodeID = 6\<rparr>]"
    using b by simp
  from fork_new_ancestors[of ex_B2 8, THEN conjunct1] have a8: "forkNewAncestors ex_B2 8 =
       [\<lparr>BranchID = ''B1'', BeginNodeID = 1, EndNodeID = 6\<rparr>,
        \<lparr>BranchID = ''B2'', BeginNodeID = 6, EndNodeID = 8\<rparr>]"
    using b by simp
  note inst = fork_new_ancestors[of ex_B2 8 memStore 7 "ex_fork 8" ex_emptyDB "fork_resp (ex_fork 8)"
         "snd (ForkHistoryBranch memStore 7 (ex_fork 8) ex_emptyDB)" ex_emptyDB
         "snd (ForkHistoryBranch memStore 7 (ex_fork 8) ex_emptyDB)"
         nmemStore ex_emptyNDB "snd (nosql_ForkHistoryBranch nmemStore 7 (ex_fork 8) ex_emptyNDB)"
         ex_emptyNDB "snd (nosql_ForkHistoryBranch nmemStore 7 (ex_fork 8) ex_emptyNDB)"]
  from inst[THEN conjunct2, THEN conjunct2, THEN conjunct2, THEN conjunct1, THEN mp, OF f,
            THEN conjunct1]
  have sql: "tree_table (snd (ForkHistoryBranch memStore 7 (ex_fork 8) ex_emptyDB)) =
       [\<lparr>ht_ShardID = 0, ht_TreeID = ''T'', ht_BranchID = ''B3'',
         ht_Data = \<lparr>ti_Ancestors = [\<lparr>BranchID = ''B1'', BeginNodeID = 1, EndNodeID = 6\<rparr>,
                                     \<lparr>BranchID = ''B2'', BeginNodeID = 6, EndNodeID = 8\<rparr>],
                    ti_Info = ''fork'', ti_CreatedTimestamp = 7\<rparr>,
         ht_DataEncoding = ''mem''\<rparr>]"
    using r a8 by simp
  from inst[THEN conjunct2, THEN conjunct2, THEN conjunct2, THEN conjunct2, THEN conjunct2,
            THEN conjunct2, THEN mp, OF nf, THEN conjunct1]
  have nosql: "ntree_table (snd (nosql_ForkHistoryBranch nmemStore 7 (ex_fork 8) ex_emptyNDB)) =
       [\<lparr>nt_ShardID = 0, nt_TreeID = ''T'', nt_BranchID = ''B3'',
         nt_Ancestors = [\<lparr>BranchID = ''B1'', BeginNodeID = 0, EndNodeID = 6\<rparr>,
                         \<lparr>BranchID = ''B2'', BeginNodeID = 0, EndNodeID = 8\<rparr>],
         nt_CreateTimestamp = 7, nt_Info = ''fork''\<rparr>]"
    using r a8 by simp
  from a6 a8 sql nosql show ?thesis by blast
qed

text \<open>The claim as it was stated, for every \<^verbatim>\<open>ForkHistoryBranch\<close> call, fails on the NoSQL
  store: the ancestors in the tree row it inserts are not the derived ancestors, which the
  response has; their begin node ids are 0.\<close>

theorem fork_new_ancestors_counterexample:
  "nosql_ForkHistoryBranch nmemStore 7 (ex_fork 8) ex_emptyNDB =
     (Inr \<lparr>NewBranchInfo =
             \<lparr>hb_TreeID = ''T'', hb_BranchID = ''B3'',
              Ancestors = [\<lparr>BranchID = ''B1'', BeginNodeID = 1, EndNodeID = 6\<rparr>,
                           \<lparr>BranchID = ''B2'', BeginNodeID = 6, EndNodeID = 8\<rparr>]\<rparr>\<rparr>,
      \<lparr>ntree_table =
         [\<lparr>nt_ShardID = 0, nt_TreeID = ''T'', nt_BranchID = ''B3'',
           nt_Ancestors = [\<lparr>BranchID = ''B1'', BeginNodeID = 0, EndNodeID = 6\<rparr>,
                           \<lparr>BranchID = ''B2'', BeginNodeID = 0, EndNodeID = 8\<rparr>],
           nt_CreateTimestamp = 7, nt_Info = ''fork''\<rparr>],
       nnode_table = []\<rparr>)
   \<and> [\<lparr>BranchID = ''B1'', BeginNodeID = 0, EndNodeID = 6\<rparr>,
       \<lparr>BranchID = ''B2'', BeginNodeID = 0, EndNodeID = 8\<rparr>] \<noteq>
      forkNewAncestors (fk_ForkBranchInfo (ex_fork 8)) (fk_ForkNodeID (ex_fork 8))"
  by code_simp

end
